theory Spec2Isabelle
  imports Complex_Main "HOL-Library.Word"
begin

section \<open>Periodic evaluation of an agent: \<^verbatim>\<open>chainerrl/experiments/evaluator.py\<close>\<close>

text \<open>
  The module is embedded as state-passing functions. A Python exception is the value
  \<open>Inl e\<close>, and the state reached when it was raised is kept beside it, because the
  effects made before a \<^verbatim>\<open>raise\<close> stay. The \<^verbatim>\<open>while\<close> loop of an episode may run for
  ever, so every program returns an \<open>option\<close>: \<open>None\<close> is "does not return".

  Python floats are modelled as \<open>real\<close>: rounding of float64 arithmetic, NaN and the
  infinities of float64 are not represented. The two shared cells of
  \<^verbatim>\<open>AsyncEvaluator\<close> that are narrower than the Python values stored into them (the C
  \<^verbatim>\<open>long\<close> of \<^verbatim>\<open>mp.Value('l', ...)\<close> and the C \<^verbatim>\<open>float\<close> of \<^verbatim>\<open>mp.Value('f', ...)\<close>)
  are modelled with their narrowing.
\<close>

subsection \<open>Exceptions, programs\<close>

datatype error = ZeroDivisionError | StatisticsError | Raised string

type_synonym ('a, 's) prog = "'s \<Rightarrow> ((error + 'a) \<times> 's) option"

definition ret :: "'a \<Rightarrow> ('a, 's) prog" where
  "ret x s = Some (Inr x, s)"

definition throw :: "error \<Rightarrow> ('a, 's) prog" where
  "throw e s = Some (Inl e, s)"

definition bnd :: "('a, 's) prog \<Rightarrow> ('a \<Rightarrow> ('b, 's) prog) \<Rightarrow> ('b, 's) prog" where
  "bnd m f s = (case m s of
       None \<Rightarrow> None
     | Some (Inl e, s') \<Rightarrow> Some (Inl e, s')
     | Some (Inr x, s') \<Rightarrow> f x s')"

subsection \<open>The state: collaborators, files, and a history of calls\<close>

datatype open_mode = Mode_w | Mode_a | Mode_a_plus

text \<open>
  \<open>trace\<close> is a history variable: every call the module makes to a collaborator, to the
  file system or to the logger is appended to it, also when the call raises. The event
  of \<^verbatim>\<open>env.step\<close> carries the reward and the \<^verbatim>\<open>done\<close> flag it returned (\<open>None\<close> when it
  raised); the event of \<^verbatim>\<open>print(text, file=f)\<close> carries the path and the mode \<^verbatim>\<open>f\<close> was
  opened with, the text, and whether the text was written.
\<close>

datatype event =
    Ev_reset
  | Ev_act
  | Ev_select int
  | Ev_step "(real \<times> bool) option"
  | Ev_stop_episode
  | Ev_get_statistics
  | Ev_save string
  | Ev_time
  | Ev_open string open_mode
  | Ev_print string open_mode string bool
  | Ev_info_episode int real
  | Ev_info_saved string
  | Ev_info_best real

record 'w sys =
  world :: 'w
  files :: "string \<rightharpoonup> string"
  trace :: "event list"

type_synonym ('a, 'w) call = "'w \<Rightarrow> (error + 'a) \<times> 'w"

text \<open>The environment: \<^verbatim>\<open>reset()\<close>, and \<^verbatim>\<open>step(a)\<close> giving observation, reward and
  done (the fourth component, \<^verbatim>\<open>info\<close>, is never read).\<close>

record ('w, 'o, 'a) env =
  env_reset :: "('o, 'w) call"
  env_step :: "'a \<Rightarrow> ('o \<times> real \<times> bool, 'w) call"

record ('w, 'o, 'a) agent =
  agent_act :: "'o \<Rightarrow> ('a, 'w) call"
  agent_stop_episode :: "(unit, 'w) call"
  agent_get_statistics :: "((string \<times> real) list, 'w) call"
  agent_save :: "string \<Rightarrow> (unit, 'w) call"

text \<open>\<^verbatim>\<open>explorer.select_action(t, greedy_action_func)\<close>: the explorer receives the
  closure and decides itself whether to call it.\<close>

type_synonym ('w, 'a) explorer = "int \<Rightarrow> ('a, 'w) call \<Rightarrow> ('a, 'w) call"

text \<open>What the module takes from Python and the operating system: the clock, the
  failures of \<^verbatim>\<open>open\<close> and of writing, and \<^verbatim>\<open>str\<close> of a float.\<close>

record 'w py =
  time_time :: "'w \<Rightarrow> real \<times> 'w"
  open_error :: "string \<Rightarrow> open_mode \<Rightarrow> 'w \<Rightarrow> error option"
  write_error :: "string \<Rightarrow> 'w \<Rightarrow> error option"
  str_float :: "real \<Rightarrow> string"

definition note_event :: "event \<Rightarrow> (unit, 'w sys) prog" where
  "note_event ev s = Some (Inr (), s\<lparr>trace := trace s @ [ev]\<rparr>)"

definition call_world :: "event \<Rightarrow> ('a, 'w) call \<Rightarrow> ('a, 'w sys) prog" where
  "call_world ev c s =
     (case c (world s) of (r, w') \<Rightarrow> Some (r, s\<lparr>world := w', trace := trace s @ [ev]\<rparr>))"

definition step_event :: "error + 'o \<times> real \<times> bool \<Rightarrow> event" where
  "step_event r = Ev_step (case r of Inl e \<Rightarrow> None | Inr (obs, x, d) \<Rightarrow> Some (x, d))"

definition call_step :: "('w, 'o, 'a) env \<Rightarrow> 'a \<Rightarrow> ('o \<times> real \<times> bool, 'w sys) prog" where
  "call_step E a s =
     (case env_step E a (world s) of
        (r, w') \<Rightarrow> Some (r, s\<lparr>world := w', trace := trace s @ [step_event r]\<rparr>))"

definition logger_info :: "event \<Rightarrow> (unit, 'w sys) prog" where
  "logger_info msg = note_event msg"

definition now :: "'w py \<Rightarrow> (real, 'w sys) prog" where
  "now P s = (case time_time P (world s) of
       (x, w') \<Rightarrow> Some (Inr x, s\<lparr>world := w', trace := trace s @ [Ev_time]\<rparr>))"

subsection \<open>Library functions the module calls\<close>

definition newline :: char where
  "newline = CHR 0x0A"

definition tab :: char where
  "tab = CHR 0x09"

text \<open>\<^verbatim>\<open>sep.join(xs)\<close>\<close>

fun join :: "string \<Rightarrow> string list \<Rightarrow> string" where
  "join sep [] = []"
| "join sep [x] = x"
| "join sep (x # y # ys) = x @ sep @ join sep (y # ys)"

text \<open>\<^verbatim>\<open>os.path.join(a, b)\<close> of \<^verbatim>\<open>posixpath\<close>\<close>

definition os_path_join :: "string \<Rightarrow> string \<Rightarrow> string" where
  "os_path_join a b =
     (if b \<noteq> [] \<and> hd b = CHR ''/'' then b
      else if a = [] \<or> last a = CHR ''/'' then a @ b
      else a @ ''/'' @ b)"

text \<open>\<^verbatim>\<open>str\<close> of an \<^verbatim>\<open>int\<close>\<close>

definition digit :: "nat \<Rightarrow> char" where
  "digit n = ''0123456789'' ! n"

fun str_nat :: "nat \<Rightarrow> string" where
  "str_nat n = (if n < 10 then [digit n]
                else str_nat (n div 10) @ [digit (n mod 10)])"

declare str_nat.simps [simp del]

definition str_int :: "int \<Rightarrow> string" where
  "str_int i = (if i < 0 then ''-'' @ str_nat (nat (- i)) else str_nat (nat i))"

text \<open>\<^verbatim>\<open>open(path, mode)\<close>: \<^verbatim>\<open>'w'\<close> truncates, \<^verbatim>\<open>'a'\<close> and \<^verbatim>\<open>'a+'\<close> create the file when
  it is missing and keep it otherwise.\<close>

definition open_file :: "'w py \<Rightarrow> string \<Rightarrow> open_mode \<Rightarrow> (unit, 'w sys) prog" where
  "open_file P path mode =
     bnd (note_event (Ev_open path mode)) (\<lambda>_ s.
       case open_error P path mode (world s) of
         Some e \<Rightarrow> throw e s
       | None \<Rightarrow>
           (if mode = Mode_w \<or> files s path = None
            then ret () (s\<lparr>files := (files s)(path \<mapsto> [])\<rparr>)
            else ret () s))"

text \<open>\<^verbatim>\<open>print(text, file=f)\<close> on a file opened as above: the text and a newline go to
  the end of the file.\<close>

definition print_file :: "'w py \<Rightarrow> string \<Rightarrow> open_mode \<Rightarrow> string \<Rightarrow> (unit, 'w sys) prog" where
  "print_file P path mode text s =
     (case write_error P path (world s) of
        Some e \<Rightarrow> Some (Inl e, s\<lparr>trace := trace s @ [Ev_print path mode text False]\<rparr>)
      | None \<Rightarrow>
          Some (Inr (), s\<lparr>files := (files s)(path \<mapsto>
                  (case files s path of None \<Rightarrow> [] | Some c \<Rightarrow> c) @ text @ [newline]),
                trace := trace s @ [Ev_print path mode text True]\<rparr>))"

text \<open>\<^verbatim>\<open>statistics.mean\<close>, \<^verbatim>\<open>statistics.median\<close>, \<^verbatim>\<open>statistics.stdev\<close>\<close>

definition statistics_mean :: "real list \<Rightarrow> error + real" where
  "statistics_mean data =
     (if data = [] then Inl StatisticsError
      else Inr (sum_list data / real (length data)))"

definition statistics_median :: "real list \<Rightarrow> error + real" where
  "statistics_median data =
     (let d = sort data; n = length d in
      if n = 0 then Inl StatisticsError
      else if n mod 2 = 1 then Inr (d ! (n div 2))
      else Inr ((d ! (n div 2 - 1) + d ! (n div 2)) / 2))"

definition statistics_stdev :: "real list \<Rightarrow> error + real" where
  "statistics_stdev data =
     (let n = length data in
      if n < 2 then Inl StatisticsError
      else let c = sum_list data / real n;
               ss = sum_list (map (\<lambda>x. (x - c)\<^sup>2) data)
           in Inr (sqrt (ss / real (n - 1))))"

definition lift_result :: "error + 'a \<Rightarrow> ('a, 's) prog" where
  "lift_result r = (case r of Inl e \<Rightarrow> throw e | Inr x \<Rightarrow> ret x)"

subsection \<open>\<^verbatim>\<open>eval_performance\<close>\<close>

lemma bnd_mono [partial_function_mono]:
  assumes "\<And>x s. mono_option (\<lambda>f. C f x s)"
  shows "mono_option (\<lambda>f. bnd m (\<lambda>x. C f x) s)"
proof (cases "m s")
  case None
  then show ?thesis by (simp add: bnd_def option.const_mono)
next
  case (Some p)
  obtain r s' where p: "p = (r, s')" by (cases p)
  show ?thesis
  proof (cases r)
    case (Inl e)
    with Some p show ?thesis by (simp add: bnd_def option.const_mono)
  next
    case (Inr x)
    with Some p show ?thesis by (simp add: bnd_def assms)
  qed
qed

text \<open>Lines 28 to 33: the action of one time step.\<close>

definition select :: "('w, 'o, 'a) agent \<Rightarrow> ('w, 'a) explorer option \<Rightarrow> int \<Rightarrow> 'o
    \<Rightarrow> ('a, 'w sys) prog" where
  "select A explorer t obs =
     (case explorer of
        Some X \<Rightarrow> call_world (Ev_select t) (X t (agent_act A obs))
      | None \<Rightarrow> call_world Ev_act (agent_act A obs))"

text \<open>Lines 27 to 36: the loop of one episode, from the values of \<^verbatim>\<open>obs\<close>, \<^verbatim>\<open>done\<close>,
  \<^verbatim>\<open>test_r\<close> and \<^verbatim>\<open>t\<close>. It returns \<^verbatim>\<open>test_r\<close> and \<^verbatim>\<open>t\<close> as the loop leaves them.
  \<open>max_episode_len = None\<close> is Python's \<^verbatim>\<open>None\<close>, which no \<^verbatim>\<open>t\<close> equals.\<close>

partial_function (option) episode_loop ::
  "('w, 'o, 'a) env \<Rightarrow> ('w, 'o, 'a) agent \<Rightarrow> ('w, 'a) explorer option \<Rightarrow> int option
    \<Rightarrow> 'o \<Rightarrow> bool \<Rightarrow> real \<Rightarrow> int \<Rightarrow> 'w sys \<Rightarrow> ((error + real \<times> int) \<times> 'w sys) option"
where
  "episode_loop E A explorer max_episode_len obs done test_r t s =
     (if \<not> (done \<or> Some t = max_episode_len)
      then bnd (select A explorer t obs) (\<lambda>a.
           bnd (call_step E a) (\<lambda>(obs', r, done').
             episode_loop E A explorer max_episode_len obs' done' (test_r + r) (t + 1))) s
      else ret (test_r, t) s)"

text \<open>Lines 23 to 41: one pass of the \<^verbatim>\<open>for\<close> loop, giving the episode's score.\<close>

definition episode ::
  "('w, 'o, 'a) env \<Rightarrow> ('w, 'o, 'a) agent \<Rightarrow> ('w, 'a) explorer option \<Rightarrow> int option
    \<Rightarrow> int \<Rightarrow> (real, 'w sys) prog" where
  "episode E A explorer max_episode_len i =
     bnd (call_world Ev_reset (env_reset E)) (\<lambda>obs.
     bnd (episode_loop E A explorer max_episode_len obs False 0 0) (\<lambda>(test_r, t).
     bnd (call_world Ev_stop_episode (agent_stop_episode A)) (\<lambda>_.
     bnd (logger_info (Ev_info_episode i test_r)) (\<lambda>_.
     ret test_r))))"

text \<open>Lines 21 to 41: \<^verbatim>\<open>for i in range(n_runs)\<close>, over the indices still to run.\<close>

primrec run_episodes ::
  "('w, 'o, 'a) env \<Rightarrow> ('w, 'o, 'a) agent \<Rightarrow> ('w, 'a) explorer option \<Rightarrow> int option
    \<Rightarrow> int list \<Rightarrow> real list \<Rightarrow> (real list, 'w sys) prog" where
  "run_episodes E A explorer max_episode_len [] scores = ret scores"
| "run_episodes E A explorer max_episode_len (i # is) scores =
     bnd (episode E A explorer max_episode_len i) (\<lambda>test_r.
       run_episodes E A explorer max_episode_len is (scores @ [test_r]))"

text \<open>\<^verbatim>\<open>range(n)\<close>: empty when \<open>n \<le> 0\<close>.\<close>

definition py_range :: "int \<Rightarrow> int list" where
  "py_range n = [0..n - 1]"

definition eval_performance ::
  "('w, 'o, 'a) env \<Rightarrow> ('w, 'o, 'a) agent \<Rightarrow> int \<Rightarrow> int option \<Rightarrow> ('w, 'a) explorer option
    \<Rightarrow> (real \<times> real \<times> real, 'w sys) prog" where
  "eval_performance E A n_runs max_episode_len explorer =
     bnd (run_episodes E A explorer max_episode_len (py_range n_runs) []) (\<lambda>scores.
     bnd (lift_result (statistics_mean scores)) (\<lambda>mean.
     bnd (lift_result (statistics_median scores)) (\<lambda>median.
     bnd (if n_runs \<ge> 2 then lift_result (statistics_stdev scores) else ret 0) (\<lambda>stdev.
     ret (mean, median, stdev)))))"

subsection \<open>\<^verbatim>\<open>record_stats\<close>, \<^verbatim>\<open>save_agent\<close>, \<^verbatim>\<open>update_best_model\<close>\<close>

datatype pyval = PyInt int | PyFloat real

definition py_str :: "'w py \<Rightarrow> pyval \<Rightarrow> string" where
  "py_str P v = (case v of PyInt i \<Rightarrow> str_int i | PyFloat x \<Rightarrow> str_float P x)"

definition scores_txt :: "string \<Rightarrow> string" where
  "scores_txt outdir = os_path_join outdir ''scores.txt''"

definition record_stats :: "'w py \<Rightarrow> string \<Rightarrow> pyval list \<Rightarrow> (unit, 'w sys) prog" where
  "record_stats P outdir values =
     bnd (open_file P (scores_txt outdir) Mode_a_plus) (\<lambda>_.
       print_file P (scores_txt outdir) Mode_a_plus (join [tab] (map (py_str P) values)))"

definition save_agent :: "('w, 'o, 'a) agent \<Rightarrow> int \<Rightarrow> string \<Rightarrow> string \<Rightarrow> (unit, 'w sys) prog" where
  "save_agent A t outdir suffix =
     (let dirname = os_path_join outdir (str_int t @ suffix) in
      bnd (call_world (Ev_save dirname) (agent_save A dirname)) (\<lambda>_.
        logger_info (Ev_info_saved dirname)))"

definition update_best_model ::
  "('w, 'o, 'a) agent \<Rightarrow> string \<Rightarrow> int \<Rightarrow> 'm \<Rightarrow> real \<Rightarrow> (unit, 'w sys) prog" where
  "update_best_model A outdir t old_max_score new_max_score =
     bnd (logger_info (Ev_info_best new_max_score)) (\<lambda>_. save_agent A t outdir [])"

text \<open>The header line that both classes print (lines 90 to 93 and 168 to 171).\<close>

definition column_names :: "(string \<times> real) list \<Rightarrow> string list" where
  "column_names stats =
     [''steps'', ''elapsed'', ''mean'', ''median'', ''stdev''] @ map fst stats"

definition write_header_to :: "'w py \<Rightarrow> string \<Rightarrow> ('w, 'o, 'a) agent \<Rightarrow> (unit, 'w sys) prog" where
  "write_header_to P outdir A =
     bnd (open_file P (scores_txt outdir) Mode_w) (\<lambda>_.
     bnd (call_world Ev_get_statistics (agent_get_statistics A)) (\<lambda>stats.
       print_file P (scores_txt outdir) Mode_w (join [tab] (column_names stats))))"

text \<open>Python's \<^verbatim>\<open>%\<close> on integers: the sign of the divisor, as \<open>mod\<close> on \<open>int\<close>, and
  \<^verbatim>\<open>ZeroDivisionError\<close> for a zero divisor.\<close>

definition py_mod :: "int \<Rightarrow> int \<Rightarrow> error + int" where
  "py_mod a b = (if b = 0 then Inl ZeroDivisionError else Inr (a mod b))"

subsection \<open>Numbers narrower than Python's\<close>

text \<open>The largest finite float32; \<^verbatim>\<open>np.finfo(np.float32).min\<close> is its negation.\<close>

definition f32_max :: real where
  "f32_max = (2 ^ 24 - 1) * 2 ^ 104"

definition finfo_float32_min :: real where
  "finfo_float32_min = - f32_max"

text \<open>What a C \<^verbatim>\<open>float\<close> cell holds, read back as a Python float.\<close>

datatype c_float = Finite real | PosInf | NegInf

definition round_half_even :: "real \<Rightarrow> int" where
  "round_half_even y =
     (let f = \<lfloor>y\<rfloor>; d = y - of_int f in
      if d < 1 / 2 then f else if d > 1 / 2 then f + 1
      else if even f then f else f + 1)"

text \<open>Storing a Python float into \<^verbatim>\<open>mp.Value('f', ...)\<close>: rounding to the nearest
  number with a 24-bit significand (ties to even), in steps of \<open>2 powr (-149)\<close> below
  the normal range, and to an infinity beyond the largest float32.\<close>

definition to_c_float :: "real \<Rightarrow> c_float" where
  "to_c_float x =
     (if x = 0 then Finite 0
      else
        let e = max \<lfloor>log 2 \<bar>x\<bar>\<rfloor> (- 126);
            q = 2 powr of_int (e - 23);
            r = of_int (round_half_even (\<bar>x\<bar> / q)) * q
        in if r > f32_max then (if x > 0 then PosInf else NegInf)
           else Finite (sgn x * r))"

text \<open>\<^verbatim>\<open>mean > self._max_score.value\<close>\<close>

fun gt_c_float :: "real \<Rightarrow> c_float \<Rightarrow> bool" where
  "gt_c_float x (Finite y) = (x > y)"
| "gt_c_float x PosInf = False"
| "gt_c_float x NegInf = True"

text \<open>Storing a Python int into \<^verbatim>\<open>mp.Value('l', ...)\<close>: a C \<^verbatim>\<open>long\<close> of 64 bits, which
  keeps the low 64 bits (ctypes checks no overflow); \<open>sint\<close> reads it back.\<close>

definition to_c_long :: "int \<Rightarrow> 64 word" where
  "to_c_long i = word_of_int i"

subsection \<open>Programs over an object and the system\<close>

definition on_sys :: "('a, 's) prog \<Rightarrow> ('a, 'self \<times> 's) prog" where
  "on_sys m = (\<lambda>(self, s).
     case m s of None \<Rightarrow> None | Some (r, s') \<Rightarrow> Some (r, (self, s')))"

definition get_self :: "('self, 'self \<times> 's) prog" where
  "get_self = (\<lambda>(self, s). Some (Inr self, (self, s)))"

definition modify_self :: "('self \<Rightarrow> 'self) \<Rightarrow> (unit, 'self \<times> 's) prog" where
  "modify_self f = (\<lambda>(self, s). Some (Inr (), (f self, s)))"

subsection \<open>\<^verbatim>\<open>Evaluator\<close>\<close>

record ('w, 'a) evaluator_fields =
  start_time :: real
  n_runs :: int
  eval_interval :: int
  outdir :: string
  max_episode_len :: "int option"
  explorer :: "('w, 'a) explorer option"
  step_offset :: int

record ('w, 'o, 'a) Evaluator = "('w, 'a) evaluator_fields" +
  agent :: "('w, 'o, 'a) agent"
  env :: "('w, 'o, 'a) env"
  max_score :: real
  prev_eval_t :: int

text \<open>Lines 96 to 103 of \<^verbatim>\<open>Evaluator.evaluate_and_update_max_score\<close>, which are lines 150
  to 157 of \<^verbatim>\<open>AsyncEvaluator.evaluate_and_update_max_score\<close> with \<^verbatim>\<open>self.env\<close> and
  \<^verbatim>\<open>self.agent\<close> for \<^verbatim>\<open>env\<close> and \<^verbatim>\<open>agent\<close>: the evaluation, and its row in
  \<^verbatim>\<open>scores.txt\<close>.\<close>

definition evaluate_and_record ::
  "'w py \<Rightarrow> ('w, 'a, 'z) evaluator_fields_scheme \<Rightarrow> int \<Rightarrow> ('w, 'o, 'a) env
    \<Rightarrow> ('w, 'o, 'a) agent \<Rightarrow> (real, 'w sys) prog" where
  "evaluate_and_record P self t E A =
     bnd (eval_performance E A (n_runs self) (max_episode_len self) (explorer self))
       (\<lambda>(mean, median, stdev).
     bnd (now P) (\<lambda>tm.
     bnd (call_world Ev_get_statistics (agent_get_statistics A)) (\<lambda>stats.
     bnd (record_stats P (outdir self)
            ([PyInt t, PyFloat (tm - start_time self), PyFloat mean, PyFloat median,
              PyFloat stdev] @ map (PyFloat \<circ> snd) stats)) (\<lambda>_.
     ret mean))))"

text \<open>\<^verbatim>\<open>Evaluator.__init__\<close>, lines 71 to 93\<close>

definition Evaluator_init ::
  "'w py \<Rightarrow> ('w, 'o, 'a) agent \<Rightarrow> ('w, 'o, 'a) env \<Rightarrow> int \<Rightarrow> int \<Rightarrow> string \<Rightarrow> int option
    \<Rightarrow> ('w, 'a) explorer option \<Rightarrow> int \<Rightarrow> (('w, 'o, 'a) Evaluator, 'w sys) prog" where
  "Evaluator_init P A E n_runs' eval_interval' outdir' max_episode_len' explorer' step_offset' =
     bnd (now P) (\<lambda>start.
     bnd (lift_result (py_mod step_offset' eval_interval')) (\<lambda>m.
     bnd (write_header_to P outdir' A) (\<lambda>_.
       ret \<lparr>start_time = start, n_runs = n_runs', eval_interval = eval_interval',
            outdir = outdir', max_episode_len = max_episode_len', explorer = explorer',
            step_offset = step_offset', agent = A, env = E,
            max_score = finfo_float32_min, prev_eval_t = step_offset' - m\<rparr>)))"

text \<open>\<^verbatim>\<open>Evaluator.evaluate_and_update_max_score\<close>, lines 95 to 108\<close>

definition evaluate_and_update_max_score ::
  "'w py \<Rightarrow> int \<Rightarrow> (real, ('w, 'o, 'a) Evaluator \<times> 'w sys) prog" where
  "evaluate_and_update_max_score P t =
     bnd get_self (\<lambda>self.
     bnd (on_sys (evaluate_and_record P self t (env self) (agent self))) (\<lambda>mean.
     bnd (if mean > max_score self
          then bnd (on_sys (update_best_model (agent self) (outdir self) t
                      (max_score self) mean)) (\<lambda>_.
               modify_self (\<lambda>self. self\<lparr>max_score := mean\<rparr>))
          else ret ()) (\<lambda>_.
     ret mean)))"

text \<open>\<^verbatim>\<open>Evaluator.evaluate_if_necessary\<close>, lines 110 to 115\<close>

definition evaluate_if_necessary ::
  "'w py \<Rightarrow> int \<Rightarrow> (real option, ('w, 'o, 'a) Evaluator \<times> 'w sys) prog" where
  "evaluate_if_necessary P t =
     bnd get_self (\<lambda>self.
       if t \<ge> prev_eval_t self + eval_interval self
       then bnd (evaluate_and_update_max_score P t) (\<lambda>score.
            bnd get_self (\<lambda>self.
            bnd (lift_result (py_mod t (eval_interval self))) (\<lambda>m.
            bnd (modify_self (\<lambda>self. self\<lparr>prev_eval_t := t - m\<rparr>)) (\<lambda>_.
            ret (Some score)))))
       else ret None)"

subsection \<open>\<^verbatim>\<open>AsyncEvaluator\<close>\<close>

record ('w, 'a) AsyncEvaluator = "('w, 'a) evaluator_fields" +
  shared_prev_eval_t :: "64 word"
  shared_max_score :: c_float
  wrote_header :: bool

text \<open>\<^verbatim>\<open>AsyncEvaluator.__init__\<close>, lines 120 to 141\<close>

definition AsyncEvaluator_init ::
  "'w py \<Rightarrow> int \<Rightarrow> int \<Rightarrow> string \<Rightarrow> int option
    \<Rightarrow> ('w, 'a) explorer option \<Rightarrow> int \<Rightarrow> (('w, 'a) AsyncEvaluator, 'w sys) prog" where
  "AsyncEvaluator_init P n_runs' eval_interval' outdir' max_episode_len' explorer' step_offset' =
     bnd (now P) (\<lambda>start.
     bnd (lift_result (py_mod step_offset' eval_interval')) (\<lambda>m.
     bnd (open_file P (scores_txt outdir') Mode_a) (\<lambda>_.
       ret \<lparr>start_time = start, n_runs = n_runs', eval_interval = eval_interval',
            outdir = outdir', max_episode_len = max_episode_len', explorer = explorer',
            step_offset = step_offset',
            shared_prev_eval_t = to_c_long (step_offset' - m),
            shared_max_score = to_c_float finfo_float32_min,
            wrote_header = False\<rparr>)))"

text \<open>The property \<^verbatim>\<open>max_score\<close>, lines 143 to 147\<close>

definition async_max_score :: "('w, 'a) AsyncEvaluator \<Rightarrow> c_float" where
  "async_max_score self = shared_max_score self"

text \<open>\<^verbatim>\<open>AsyncEvaluator.evaluate_and_update_max_score\<close>, lines 149 to 164\<close>

definition async_evaluate_and_update_max_score ::
  "'w py \<Rightarrow> int \<Rightarrow> ('w, 'o, 'a) env \<Rightarrow> ('w, 'o, 'a) agent
    \<Rightarrow> (real, ('w, 'a) AsyncEvaluator \<times> 'w sys) prog" where
  "async_evaluate_and_update_max_score P t E A =
     bnd get_self (\<lambda>self.
     bnd (on_sys (evaluate_and_record P self t E A)) (\<lambda>mean.
     bnd get_self (\<lambda>self.
     bnd (if gt_c_float mean (shared_max_score self)
          then bnd (on_sys (update_best_model A (outdir self) t
                      (shared_max_score self) mean)) (\<lambda>_.
               modify_self (\<lambda>self. self\<lparr>shared_max_score := to_c_float mean\<rparr>))
          else ret ()) (\<lambda>_.
     ret mean))))"

text \<open>\<^verbatim>\<open>AsyncEvaluator.write_header\<close>, lines 166 to 171\<close>

definition write_header ::
  "'w py \<Rightarrow> ('w, 'o, 'a) agent \<Rightarrow> (unit, ('w, 'a) AsyncEvaluator \<times> 'w sys) prog" where
  "write_header P A = bnd get_self (\<lambda>self. on_sys (write_header_to P (outdir self) A))"

text \<open>\<^verbatim>\<open>AsyncEvaluator.evaluate_if_necessary\<close>, lines 173 to 185, in its three parts:
  the block under the lock of \<^verbatim>\<open>prev_eval_t\<close> (lines 174 to 178), the block under the
  lock of \<^verbatim>\<open>wrote_header\<close> (lines 180 to 183), and the evaluation.\<close>

definition claim_evaluation :: "int \<Rightarrow> (bool, ('w, 'a) AsyncEvaluator \<times> 'w sys) prog" where
  "claim_evaluation t =
     bnd get_self (\<lambda>self.
       if t \<ge> sint (shared_prev_eval_t self) + eval_interval self
       then bnd (modify_self (\<lambda>self. self\<lparr>shared_prev_eval_t :=
                   to_c_long (sint (shared_prev_eval_t self) + eval_interval self)\<rparr>)) (\<lambda>_.
            ret True)
       else ret False)"

definition ensure_header ::
  "'w py \<Rightarrow> ('w, 'o, 'a) agent \<Rightarrow> (unit, ('w, 'a) AsyncEvaluator \<times> 'w sys) prog" where
  "ensure_header P A =
     bnd get_self (\<lambda>self.
       if \<not> wrote_header self
       then bnd (write_header P A) (\<lambda>_.
            modify_self (\<lambda>self. self\<lparr>wrote_header := True\<rparr>))
       else ret ())"

definition async_evaluate_if_necessary ::
  "'w py \<Rightarrow> int \<Rightarrow> ('w, 'o, 'a) env \<Rightarrow> ('w, 'o, 'a) agent
    \<Rightarrow> (real option, ('w, 'a) AsyncEvaluator \<times> 'w sys) prog" where
  "async_evaluate_if_necessary P t E A =
     bnd (claim_evaluation t) (\<lambda>necessary.
       if necessary
       then bnd (ensure_header P A) (\<lambda>_.
            bnd (async_evaluate_and_update_max_score P t E A) (\<lambda>score.
            ret (Some score)))
       else ret None)"

subsection \<open>Reading the history\<close>

text \<open>The results of the \<^verbatim>\<open>env.step\<close> calls in a history, in order.\<close>

primrec steps_of :: "event list \<Rightarrow> (real \<times> bool) option list" where
  "steps_of [] = []"
| "steps_of (e # es) = (case e of Ev_step p \<Rightarrow> p # steps_of es | _ \<Rightarrow> steps_of es)"



text \<open>The directories that \<^verbatim>\<open>agent.save\<close> was called with.\<close>

primrec saves_of :: "event list \<Rightarrow> string list" where
  "saves_of [] = []"
| "saves_of (e # es) = (case e of Ev_save d \<Rightarrow> d # saves_of es | _ \<Rightarrow> saves_of es)"


text \<open>A program adds only events of one kind to the history \<open>tr\<close> of its state.\<close>

definition adds_only :: "('s \<Rightarrow> event list) \<Rightarrow> (event \<Rightarrow> bool) \<Rightarrow> ('a, 's) prog \<Rightarrow> bool" where
  "adds_only tr Q m \<longleftrightarrow>
     (\<forall>s r s'. m s = Some (r, s') \<longrightarrow> (\<exists>new. tr s' = tr s @ new \<and> list_all Q new))"

text \<open>The events of the episodes of \<^verbatim>\<open>eval_performance\<close>.\<close>

definition episode_event :: "event \<Rightarrow> bool" where
  "episode_event e \<longleftrightarrow>
     (case e of Ev_reset \<Rightarrow> True | Ev_act \<Rightarrow> True | Ev_select t \<Rightarrow> True | Ev_step p \<Rightarrow> True
      | Ev_stop_episode \<Rightarrow> True | Ev_info_episode i x \<Rightarrow> True | _ \<Rightarrow> False)"

text \<open>A header line written: a \<^verbatim>\<open>print\<close> that succeeded on a file opened with \<^verbatim>\<open>'w'\<close>,
  which only \<^verbatim>\<open>write_header\<close> and \<^verbatim>\<open>Evaluator.__init__\<close> do.\<close>

fun header_write :: "event \<Rightarrow> bool" where
  "header_write (Ev_print path Mode_w text True) = True"
| "header_write _ = False"

definition header_writes :: "event list \<Rightarrow> nat" where
  "header_writes tr = length (filter header_write tr)"


subsection \<open>Callers running together\<close>




subsection \<open>A small environment for concrete runs\<close>

text \<open>The world is the list of the episodes to come, each with the reward of its steps and
  its number of steps, and the reward and the number of steps left of the running
  episode.\<close>

type_synonym demo_world = "(real \<times> nat) list \<times> real \<times> nat"

definition demo_env :: "(demo_world, unit, unit) env" where
  "demo_env = \<lparr>env_reset = (\<lambda>(q, x, k). (Inr (), (tl q, if q = [] then (0, 0) else hd q))),
               env_step = (\<lambda>a (q, x, k). (Inr ((), x, k \<le> 1), (q, x, k - 1)))\<rparr>"

definition demo_agent :: "(demo_world, unit, unit) agent" where
  "demo_agent = \<lparr>agent_act = (\<lambda>obs w. (Inr (), w)),
                 agent_stop_episode = (\<lambda>w. (Inr (), w)),
                 agent_get_statistics = (\<lambda>w. (Inr [(''average_q'', 0)], w)),
                 agent_save = (\<lambda>d w. (Inr (), w))\<rparr>"

definition demo_py :: "demo_world py" where
  "demo_py = \<lparr>time_time = (\<lambda>w. (0, w)), open_error = (\<lambda>p m w. None),
              write_error = (\<lambda>p w. None), str_float = (\<lambda>x. ''x'')\<rparr>"

definition demo_sys :: "(real \<times> nat) list \<Rightarrow> demo_world sys" where
  "demo_sys q = \<lparr>world = (q, 0, 0), files = Map.empty, trace = []\<rparr>"

text \<open>An environment whose \<^verbatim>\<open>step\<close> raises.\<close>

definition demo_env_raising :: "(demo_world, unit, unit) env" where
  "demo_env_raising = demo_env\<lparr>env_step := (\<lambda>a w. (Inl (Raised ''env''), w))\<rparr>"

text \<open>The objects that the constructors make in \<^verbatim>\<open>''out''\<close> for one run every 100 steps,
  without explorer and from step 0, and the system after \<^verbatim>\<open>AsyncEvaluator\<close> is made from
  \<open>demo_sys q\<close>.\<close>

definition demo_evaluator :: "(demo_world, unit, unit) Evaluator" where
  "demo_evaluator =
     \<lparr>start_time = 0, n_runs = 1, eval_interval = 100, outdir = ''out'',
      max_episode_len = None, explorer = None, step_offset = 0,
      agent = demo_agent, env = demo_env,
      max_score = finfo_float32_min, prev_eval_t = 0\<rparr>"

definition demo_async :: "(demo_world, unit) AsyncEvaluator" where
  "demo_async =
     \<lparr>start_time = 0, n_runs = 1, eval_interval = 100, outdir = ''out'',
      max_episode_len = None, explorer = None, step_offset = 0,
      shared_prev_eval_t = to_c_long 0,
      shared_max_score = Finite finfo_float32_min, wrote_header = False\<rparr>"

definition demo_async_sys :: "(real \<times> nat) list \<Rightarrow> demo_world sys" where
  "demo_async_sys q =
     \<lparr>world = (q, 0, 0), files = [''out/scores.txt'' \<mapsto> []],
      trace = [Ev_time, Ev_open ''out/scores.txt'' Mode_a]\<rparr>"

section \<open>Properties\<close>

subsection \<open>Programs\<close>

lemma bnd_ret [simp]: "bnd (ret x) f = f x"
  by (rule ext) (simp add: bnd_def ret_def)

lemma bnd_throw [simp]: "bnd (throw e) f = throw e"
  by (rule ext) (simp add: bnd_def throw_def)

lemma bnd_Inr: "m s = Some (Inr x, s') \<Longrightarrow> bnd m f s = f x s'"
  by (simp add: bnd_def)

lemma bnd_Inl: "m s = Some (Inl e, s') \<Longrightarrow> bnd m f s = Some (Inl e, s')"
  by (simp add: bnd_def)

lemma bnd_None: "m s = None \<Longrightarrow> bnd m f s = None"
  by (simp add: bnd_def)

lemma bnd_Some_iff:
  "bnd m f s = Some (r, s'') \<longleftrightarrow>
     (\<exists>e. m s = Some (Inl e, s'') \<and> r = Inl e) \<or>
     (\<exists>x s'. m s = Some (Inr x, s') \<and> f x s' = Some (r, s''))"
  by (auto simp: bnd_def split: option.splits sum.splits prod.splits)

lemmas demo_defs = demo_env_def demo_agent_def demo_py_def demo_sys_def demo_env_raising_def
  demo_evaluator_def demo_async_def demo_async_sys_def
lemmas run_defs = bnd_def ret_def throw_def call_world_def call_step_def select_def
  step_event_def note_event_def logger_info_def now_def lift_result_def

lemma steps_of_append [simp]: "steps_of (xs @ ys) = steps_of xs @ steps_of ys"
  by (induction xs) (auto split: event.splits)





subsection \<open>The episode loop\<close>







subsection \<open>The statistics of \<^verbatim>\<open>eval_performance\<close>\<close>

lemma run_episodes_length:
  "run_episodes E A X ml js acc s = Some (Inr scores, s') \<Longrightarrow>
     length scores = length acc + length js"
proof (induction js arbitrary: acc s)
  case Nil
  then show ?case by (simp add: ret_def)
next
  case (Cons j js)
  then show ?case by (fastforce simp: bnd_Some_iff)
qed

lemma length_py_range: "length (py_range n) = nat n"
  by (simp add: py_range_def)

lemma eval_performance_no_runs:
  "n \<le> 0 \<Longrightarrow> eval_performance E A n ml X s = Some (Inl StatisticsError, s)"
  by (simp add: eval_performance_def py_range_def statistics_mean_def lift_result_def throw_def)

lemma eval_performance_runs:
  assumes n: "1 \<le> n"
    and r: "run_episodes E A X ml (py_range n) [] s = Some (Inr scores, s')"
  shows "length scores = nat n \<and>
     eval_performance E A n ml X s =
       Some (Inr (sum_list scores / real (length scores),
                  (let d = sort scores; k = length scores in
                   if odd k then d ! (k div 2) else (d ! (k div 2 - 1) + d ! (k div 2)) / 2),
                  (if n = 1 then 0
                   else sqrt (sum_list (map (\<lambda>x. (x - sum_list scores / real (length scores))\<^sup>2) scores)
                              / (real (length scores) - 1)))), s')"
proof -
  have len: "length scores = nat n"
    using run_episodes_length[OF r] by (simp add: length_py_range)
  then have ne: "scores \<noteq> []" using n by auto
  have srt: "sort scores \<noteq> []" using ne by (metis length_sort length_0_conv)
  have odd: "odd (length scores) \<longleftrightarrow> length scores mod 2 = 1" by presburger
  show ?thesis
  proof (cases "n = 1")
    case True
    with len ne r srt show ?thesis
      by (simp add: eval_performance_def bnd_Inr statistics_mean_def statistics_median_def
          lift_result_def ret_def Let_def)
  next
    case False
    with n have "2 \<le> n" by simp
    then have "\<not> length scores < 2" using len by simp
    moreover have "real (length scores - 1) = real (length scores) - 1" using ne
      by (cases scores) simp_all
    ultimately show ?thesis using len ne r srt False \<open>2 \<le> n\<close> odd
      by (simp add: eval_performance_def bnd_Inr statistics_mean_def statistics_median_def
          statistics_stdev_def lift_result_def ret_def Let_def)
  qed
qed

text \<open>
  \<^bold>\<open>C4.\<close> With \<^verbatim>\<open>n_runs = 0\<close> no episode runs and \<^verbatim>\<open>statistics.mean\<close> raises on the
  empty list of scores: \<^verbatim>\<open>eval_performance\<close> raises \<^verbatim>\<open>StatisticsError\<close> and returns no
  standard deviation.
\<close>

theorem eval_performance_no_runs_raises:
  "eval_performance demo_env demo_agent 0 None None (demo_sys [(1, 1), (3, 1), (2, 1)]) =
     Some (Inl StatisticsError, demo_sys [(1, 1), (3, 1), (2, 1)])"
  by (simp add: eval_performance_def py_range_def statistics_mean_def lift_result_def throw_def)

text \<open>
  \<^bold>\<open>C4, as the code has it.\<close> For \<^verbatim>\<open>n_runs \<ge> 1\<close>, when the episodes return the scores
  \<open>scores\<close>, there are \<^verbatim>\<open>n_runs\<close> of them and \<^verbatim>\<open>eval_performance\<close> returns their
  arithmetic mean, their median (the middle element of the sorted scores, or the mean of
  the two middle ones) and their sample standard deviation (divisor \<open>n - 1\<close>), the last
  being exactly 0 when \<^verbatim>\<open>n_runs = 1\<close>. For \<^verbatim>\<open>n_runs \<le> 0\<close> it raises
  \<^verbatim>\<open>StatisticsError\<close> with the state unchanged.
\<close>

theorem eval_performance_statistics:
  "(n \<le> 0 \<longrightarrow> eval_performance E A n ml X s = Some (Inl StatisticsError, s))
   \<and> (1 \<le> n \<and> run_episodes E A X ml (py_range n) [] s = Some (Inr scores, s') \<longrightarrow>
        length scores = nat n \<and>
        eval_performance E A n ml X s =
          Some (Inr (sum_list scores / real (length scores),
                  (let d = sort scores; k = length scores in
                   if odd k then d ! (k div 2) else (d ! (k div 2 - 1) + d ! (k div 2)) / 2),
                  (if n = 1 then 0
                   else sqrt (sum_list (map (\<lambda>x. (x - sum_list scores / real (length scores))\<^sup>2)
                                 scores) / (real (length scores) - 1)))), s'))"
  using eval_performance_no_runs eval_performance_runs by blast

theorem eval_performance_statistics_witness:
  "(1::int) \<le> 3
   \<and> run_episodes demo_env demo_agent None None (py_range 3) []
         (demo_sys [(1, 1), (3, 1), (2, 1)]) =
       Some (Inr [1, 3, 2], \<lparr>world = ([], 2, 0), files = Map.empty,
         trace = [Ev_reset, Ev_act, Ev_step (Some (1, True)), Ev_stop_episode, Ev_info_episode 0 1,
           Ev_reset, Ev_act, Ev_step (Some (3, True)), Ev_stop_episode, Ev_info_episode 1 3,
           Ev_reset, Ev_act, Ev_step (Some (2, True)), Ev_stop_episode, Ev_info_episode 2 2]\<rparr>)
   \<and> eval_performance demo_env demo_agent 3 None None (demo_sys [(1, 1), (3, 1), (2, 1)]) =
       Some (Inr (2, 2, 1), \<lparr>world = ([], 2, 0), files = Map.empty,
         trace = [Ev_reset, Ev_act, Ev_step (Some (1, True)), Ev_stop_episode, Ev_info_episode 0 1,
           Ev_reset, Ev_act, Ev_step (Some (3, True)), Ev_stop_episode, Ev_info_episode 1 3,
           Ev_reset, Ev_act, Ev_step (Some (2, True)), Ev_stop_episode, Ev_info_episode 2 2]\<rparr>)
   \<and> eval_performance demo_env demo_agent 1 None None (demo_sys [(4, 1)]) =
       Some (Inr (4, 4, 0), \<lparr>world = ([], 4, 0), files = Map.empty,
         trace = [Ev_reset, Ev_act, Ev_step (Some (4, True)), Ev_stop_episode,
           Ev_info_episode 0 4]\<rparr>)"
  using eval_performance_statistics [of 3 demo_env demo_agent None None
      "demo_sys [(1, 1), (3, 1), (2, 1)]" "[1, 3, 2]"]
  by (simp add: eval_performance_def py_range_def upto.simps episode_def episode_loop.simps
      run_defs demo_defs statistics_mean_def statistics_median_def statistics_stdev_def)

subsection \<open>Programs over an object\<close>

lemma get_self_apply [simp]: "get_self (self, s) = Some (Inr self, (self, s))"
  by (simp add: get_self_def)

lemma modify_self_apply [simp]: "modify_self f (self, s) = Some (Inr (), (f self, s))"
  by (simp add: modify_self_def)

lemma bnd_get_self [simp]: "bnd get_self f (self, s) = f self (self, s)"
  by (simp add: bnd_def)

lemma on_sys_Some_iff:
  "on_sys m (self, s) = Some (r, (self', s')) \<longleftrightarrow> self' = self \<and> m s = Some (r, s')"
  by (auto simp: on_sys_def split: option.splits)

lemma on_sys_apply:
  "m s = Some (r, s') \<Longrightarrow> on_sys m (self, s) = Some (r, (self, s'))"
  by (simp add: on_sys_def)

lemma ret_apply: "ret x s = Some (Inr x, s)"
  by (simp add: ret_def)

subsection \<open>When \<^verbatim>\<open>Evaluator\<close> evaluates\<close>

lemma evaluate_and_update_max_score_self:
  assumes "evaluate_and_update_max_score P t (self, s) = Some (r, (self', s'))"
  shows "self' = self \<or>
    (\<exists>mean. r = Inr mean \<and> mean > max_score self \<and> self' = self\<lparr>max_score := mean\<rparr>)"
  using assms
  by (auto simp: evaluate_and_update_max_score_def bnd_Some_iff on_sys_Some_iff ret_apply
      split: if_splits prod.splits)

lemma evaluate_if_necessary_idle:
  "t < prev_eval_t self + eval_interval self \<Longrightarrow>
     evaluate_if_necessary P t (self, s) = Some (Inr None, (self, s))"
  by (simp add: evaluate_if_necessary_def ret_apply)

lemma evaluate_if_necessary_due:
  assumes "t \<ge> prev_eval_t self + eval_interval self" "eval_interval self \<noteq> 0"
  shows "evaluate_if_necessary P t (self, s) =
     (case evaluate_and_update_max_score P t (self, s) of
        None \<Rightarrow> None
      | Some (Inl e, st) \<Rightarrow> Some (Inl e, st)
      | Some (Inr score, (self', s')) \<Rightarrow>
          Some (Inr (Some score), (self'\<lparr>prev_eval_t := t - t mod eval_interval self\<rparr>, s')))"
proof (cases "evaluate_and_update_max_score P t (self, s)")
  case None
  with assms show ?thesis by (simp add: evaluate_if_necessary_def bnd_None)
next
  case (Some y)
  obtain r self' s' where y: "y = (r, (self', s'))" by (cases y) auto
  from evaluate_and_update_max_score_self[OF Some[unfolded y]]
  have iv: "eval_interval self' = eval_interval self" by auto
  show ?thesis
  proof (cases r)
    case (Inl e)
    with Some y assms show ?thesis by (simp add: evaluate_if_necessary_def bnd_Inl)
  next
    case (Inr score)
    with Some y assms iv show ?thesis
      by (simp add: evaluate_if_necessary_def bnd_Inr py_mod_def lift_result_def ret_apply)
  qed
qed

subsection \<open>When \<^verbatim>\<open>AsyncEvaluator\<close> evaluates\<close>

lemma sint_to_c_long:
  "- (2 ^ 63) \<le> i \<Longrightarrow> i < 2 ^ 63 \<Longrightarrow> sint (to_c_long i) = i"
  unfolding to_c_long_def
  by (simp add: sint_sbintrunc' signed_take_bit_int_eq_self)

lemma claim_evaluation_apply:
  "claim_evaluation t (self, s) =
     Some (Inr (t \<ge> sint (shared_prev_eval_t self) + eval_interval self),
       (if t \<ge> sint (shared_prev_eval_t self) + eval_interval self
        then self\<lparr>shared_prev_eval_t :=
               to_c_long (sint (shared_prev_eval_t self) + eval_interval self)\<rparr>
        else self, s))"
  by (simp add: claim_evaluation_def ret_apply bnd_def)

lemma ensure_header_self:
  assumes "ensure_header P A (self, s) = Some (r, (self', s'))"
  shows "self' = self \<or> (r = Inr () \<and> \<not> wrote_header self \<and> self' = self\<lparr>wrote_header := True\<rparr>)"
  using assms
  by (auto simp: ensure_header_def write_header_def bnd_Some_iff on_sys_Some_iff ret_apply
      split: if_splits)

lemma async_evaluate_and_update_max_score_self:
  assumes "async_evaluate_and_update_max_score P t E A (self, s) = Some (r, (self', s'))"
  shows "self' = self \<or> (\<exists>mean. r = Inr mean \<and> gt_c_float mean (shared_max_score self)
            \<and> self' = self\<lparr>shared_max_score := to_c_float mean\<rparr>)"
  using assms
  by (auto simp: async_evaluate_and_update_max_score_def bnd_Some_iff on_sys_Some_iff ret_apply
      split: if_splits prod.splits)

lemma async_evaluate_if_necessary_idle:
  "t < sint (shared_prev_eval_t self) + eval_interval self \<Longrightarrow>
     async_evaluate_if_necessary P t E A (self, s) = Some (Inr None, (self, s))"
  by (simp add: async_evaluate_if_necessary_def bnd_Inr[where m = "claim_evaluation t", OF claim_evaluation_apply] ret_apply)

lemma async_evaluate_if_necessary_due:
  "t \<ge> sint (shared_prev_eval_t self) + eval_interval self \<Longrightarrow>
     async_evaluate_if_necessary P t E A (self, s) =
       bnd (ensure_header P A) (\<lambda>_.
         bnd (async_evaluate_and_update_max_score P t E A) (\<lambda>score. ret (Some score)))
       (self\<lparr>shared_prev_eval_t :=
               to_c_long (sint (shared_prev_eval_t self) + eval_interval self)\<rparr>, s)"
  by (simp add: async_evaluate_if_necessary_def bnd_Inr[where m = "claim_evaluation t", OF claim_evaluation_apply])

lemma async_evaluate_if_necessary_self:
  assumes "async_evaluate_if_necessary P t E A (self, s) = Some (r, (self', s'))"
  shows "eval_interval self' = eval_interval self
    \<and> shared_prev_eval_t self' =
        (if t \<ge> sint (shared_prev_eval_t self) + eval_interval self
         then to_c_long (sint (shared_prev_eval_t self) + eval_interval self)
         else shared_prev_eval_t self)
    \<and> (t < sint (shared_prev_eval_t self) + eval_interval self \<longrightarrow>
          r = Inr None \<and> self' = self \<and> s' = s)
    \<and> (t \<ge> sint (shared_prev_eval_t self) + eval_interval self \<longrightarrow> r \<noteq> Inr None)"
proof (cases "t \<ge> sint (shared_prev_eval_t self) + eval_interval self")
  case False
  with assms show ?thesis by (simp add: async_evaluate_if_necessary_idle)
next
  case True
  let ?self1 = "self\<lparr>shared_prev_eval_t :=
               to_c_long (sint (shared_prev_eval_t self) + eval_interval self)\<rparr>"
  from assms True have
    "bnd (ensure_header P A) (\<lambda>_.
         bnd (async_evaluate_and_update_max_score P t E A) (\<lambda>score. ret (Some score)))
       (?self1, s) = Some (r, (self', s'))"
    by (simp add: async_evaluate_if_necessary_due)
  then show ?thesis using True
    by (auto simp: bnd_Some_iff ret_apply dest!: ensure_header_self
        async_evaluate_and_update_max_score_self)
qed

lemma evaluate_if_necessary_self:
  assumes "evaluate_if_necessary P t (self, s) = Some (Inr r, (self', s'))"
    and "eval_interval self \<noteq> 0"
  shows "eval_interval self' = eval_interval self
    \<and> (if t \<ge> prev_eval_t self + eval_interval self
        then r \<noteq> None \<and> prev_eval_t self' = t - t mod eval_interval self
        else r = None \<and> self' = self \<and> s' = s)"
proof (cases "t \<ge> prev_eval_t self + eval_interval self")
  case False
  with assms show ?thesis by (simp add: evaluate_if_necessary_idle)
next
  case True
  with assms show ?thesis
    by (auto simp: evaluate_if_necessary_due split: option.splits sum.splits prod.splits
        dest!: evaluate_and_update_max_score_self)
qed

subsection \<open>What a program adds to the history\<close>

lemma adds_onlyI:
  "(\<And>s r s'. m s = Some (r, s') \<Longrightarrow> \<exists>new. tr s' = tr s @ new \<and> list_all Q new)
     \<Longrightarrow> adds_only tr Q m"
  by (simp add: adds_only_def)

lemma adds_onlyD:
  "adds_only tr Q m \<Longrightarrow> m s = Some (r, s') \<Longrightarrow> \<exists>new. tr s' = tr s @ new \<and> list_all Q new"
  by (simp add: adds_only_def)

lemma adds_ret [intro!, simp]: "adds_only tr Q (ret x)"
  by (simp add: adds_only_def ret_def)

lemma adds_throw [intro!, simp]: "adds_only tr Q (throw e)"
  by (simp add: adds_only_def throw_def)

lemma adds_bnd [intro!]:
  assumes "adds_only tr Q m" "\<And>x. adds_only tr Q (f x)"
  shows "adds_only tr Q (bnd m f)"
proof (rule adds_onlyI)
  fix s r s' assume "bnd m f s = Some (r, s')"
  then consider e where "m s = Some (Inl e, s')"
    | x s1 where "m s = Some (Inr x, s1)" "f x s1 = Some (r, s')"
    by (auto simp: bnd_Some_iff)
  then show "\<exists>new. tr s' = tr s @ new \<and> list_all Q new"
  proof cases
    case 1
    then show ?thesis using adds_onlyD[OF assms(1)] by blast
  next
    case 2
    from adds_onlyD[OF assms(1) 2(1)] obtain n1 where "tr s1 = tr s @ n1" "list_all Q n1" by blast
    moreover from adds_onlyD[OF assms(2) 2(2)] obtain n2 where "tr s' = tr s1 @ n2" "list_all Q n2"
      by blast
    ultimately show ?thesis by (intro exI[of _ "n1 @ n2"]) simp
  qed
qed

lemma adds_if [intro!]:
  "(c \<Longrightarrow> adds_only tr Q m) \<Longrightarrow> (\<not> c \<Longrightarrow> adds_only tr Q n) \<Longrightarrow> adds_only tr Q (if c then m else n)"
  by simp

lemma adds_case_prod [intro!]:
  "(\<And>a b. adds_only tr Q (f a b)) \<Longrightarrow> adds_only tr Q (case p of (a, b) \<Rightarrow> f a b)"
  by (cases p) simp

lemma adds_lift_result [intro!, simp]: "adds_only tr Q (lift_result r)"
  by (cases r) (simp_all add: lift_result_def)

lemma adds_call_world [intro!]: "Q ev \<Longrightarrow> adds_only trace Q (call_world ev c)"
  by (auto simp: adds_only_def call_world_def split: prod.splits)

lemma adds_call_step [intro!]: "(\<And>p. Q (Ev_step p)) \<Longrightarrow> adds_only trace Q (call_step E a)"
  by (auto simp: adds_only_def call_step_def step_event_def split: prod.splits)

lemma adds_logger_info [intro!]: "Q ev \<Longrightarrow> adds_only trace Q (logger_info ev)"
  by (auto simp: adds_only_def logger_info_def note_event_def)

lemma adds_now [intro!]: "Q Ev_time \<Longrightarrow> adds_only trace Q (now P)"
  by (auto simp: adds_only_def now_def split: prod.splits)

lemma adds_open_file [intro!]: "Q (Ev_open path mode) \<Longrightarrow> adds_only trace Q (open_file P path mode)"
  by (auto simp: adds_only_def open_file_def note_event_def bnd_Some_iff throw_def ret_def
      split: option.splits if_splits)

lemma adds_print_file [intro!]:
  "(\<And>ok. Q (Ev_print path mode text ok)) \<Longrightarrow> adds_only trace Q (print_file P path mode text)"
  by (auto simp: adds_only_def print_file_def split: option.splits)

lemma adds_select [intro!]:
  "Q Ev_act \<Longrightarrow> Q (Ev_select t) \<Longrightarrow> adds_only trace Q (select A X t obs)"
  by (cases X) (auto simp: select_def)




lemma adds_episode_loop:
  "adds_only trace episode_event (episode_loop E A X m obs dn test_r t)"
proof (rule adds_onlyI)
  fix s r s' assume a: "episode_loop E A X m obs dn test_r t s = Some (r, s')"
  have "\<exists>new. trace (snd (r, s')) = trace s @ new \<and> list_all episode_event new"
  proof (rule episode_loop.raw_induct
    [where P = "\<lambda>E A X m obs dn test_r t s y.
        \<exists>new. trace (snd y) = trace s @ new \<and> list_all episode_event new", OF _ a])
    fix loop :: "('a, 'b, 'c) env \<Rightarrow> ('a, 'b, 'c) agent \<Rightarrow> ('a, 'c) explorer option \<Rightarrow> int option
      \<Rightarrow> 'b \<Rightarrow> bool \<Rightarrow> real \<Rightarrow> int \<Rightarrow> 'a sys \<Rightarrow> ((error + real \<times> int) \<times> 'a sys) option"
    fix E A X m obs dn test_r t s y
    assume IH: "\<And>E A X m obs dn test_r t s y.
        loop E A X m obs dn test_r t s = Some y \<Longrightarrow>
        \<exists>new. trace (snd y) = trace s @ new \<and> list_all episode_event new"
    assume body: "(if \<not> (dn \<or> Some t = m)
        then bnd (select A X t obs) (\<lambda>a.
             bnd (call_step E a) (\<lambda>(obs', r, done').
               loop E A X m obs' done' (test_r + r) (t + 1))) s
        else ret (test_r, t) s) = Some y"
    have rec: "adds_only trace episode_event (loop E A X m obs' d x t')" for obs' d x t'
      by (rule adds_onlyI) (use IH in fastforce)
    have "adds_only trace episode_event (if \<not> (dn \<or> Some t = m)
        then bnd (select A X t obs) (\<lambda>a.
             bnd (call_step E a) (\<lambda>(obs', r, done').
               loop E A X m obs' done' (test_r + r) (t + 1)))
        else ret (test_r, t))"
      by (intro adds_if adds_bnd adds_select adds_call_step adds_case_prod adds_ret rec)
         (simp_all add: episode_event_def)
    from adds_onlyD[OF this, of s "fst y" "snd y"] body
    show "\<exists>new. trace (snd y) = trace s @ new \<and> list_all episode_event new"
      by (simp split: if_splits)
  qed
  then show "\<exists>new. trace s' = trace s @ new \<and> list_all episode_event new" by simp
qed

lemma adds_episode: "adds_only trace episode_event (episode E A X m i)"
  unfolding episode_def
  by (intro adds_bnd adds_call_world adds_episode_loop adds_case_prod adds_logger_info adds_ret)
     (simp_all add: episode_event_def)

lemma adds_run_episodes:
  "adds_only trace episode_event (run_episodes E A X m js acc)"
  by (induction js arbitrary: acc) (auto intro!: adds_episode)

lemma adds_eval_performance:
  "adds_only trace episode_event (eval_performance E A n m X)"
  unfolding eval_performance_def
  by (intro adds_bnd adds_run_episodes adds_lift_result adds_if adds_ret)

subsection \<open>The header of \<^verbatim>\<open>AsyncEvaluator\<close>\<close>

lemma header_writes_append [simp]:
  "header_writes (xs @ ys) = header_writes xs + header_writes ys"
  by (simp add: header_writes_def)


lemma adds_only_mono:
  "adds_only tr Q m \<Longrightarrow> (\<And>e. Q e \<Longrightarrow> Q' e) \<Longrightarrow> adds_only tr Q' m"
  unfolding adds_only_def by (meson list.pred_mono_strong)














subsection \<open>The narrow cells\<close>

lemma to_c_float_at:
  assumes "x \<noteq> 0" "2 powr of_int e \<le> \<bar>x\<bar>" "\<bar>x\<bar> < 2 powr of_int (e + 1)" "- 126 \<le> e"
  shows "to_c_float x =
     (let q = 2 powr of_int (e - 23);
          r = of_int (round_half_even (\<bar>x\<bar> / q)) * q
      in if r > f32_max then (if x > 0 then PosInf else NegInf) else Finite (sgn x * r))"
proof -
  have "\<lfloor>log 2 \<bar>x\<bar>\<rfloor> = e"
    using assms by (subst floor_log_eq_powr_iff) auto
  then show ?thesis using assms by (simp add: to_c_float_def Let_def max_def)
qed

lemma to_c_float_one: "to_c_float 1 = Finite 1"
  by (subst to_c_float_at[where e = 0])
     (simp_all add: powr_minus powr_numeral round_half_even_def f32_max_def Let_def)

lemma to_c_float_min: "to_c_float finfo_float32_min = Finite finfo_float32_min"
  by (subst to_c_float_at[where e = 127])
     (simp_all add: powr_minus powr_numeral round_half_even_def f32_max_def
        finfo_float32_min_def Let_def)

lemma to_c_float_16777217: "to_c_float 16777217 = Finite 16777216"
  by (subst to_c_float_at[where e = 24])
     (simp_all add: powr_minus powr_numeral round_half_even_def f32_max_def Let_def)

lemma finfo_float32_min_less: "0 \<le> x \<Longrightarrow> finfo_float32_min < x"
  by (simp add: finfo_float32_min_def f32_max_def)

text \<open>The equations that run the module on concrete collaborators.\<close>

lemmas eval_defs = episode_def episode_loop.simps run_defs demo_defs eval_performance_def py_range_def upto.simps
      statistics_mean_def statistics_median_def statistics_stdev_def
      Evaluator_init_def write_header_to_def open_file_def print_file_def scores_txt_def os_path_join_def
      column_names_def py_mod_def on_sys_def record_stats_def py_str_def str_int_def str_nat.simps
      save_agent_def update_best_model_def evaluate_and_update_max_score_def evaluate_if_necessary_def
      evaluate_and_record_def AsyncEvaluator_init_def async_evaluate_and_update_max_score_def
      write_header_def claim_evaluation_def ensure_header_def async_evaluate_if_necessary_def
      get_self_def modify_self_def
      tab_def newline_def digit_def Let_def sint_to_c_long to_c_float_one to_c_float_min
      finfo_float32_min_less

subsection \<open>A call as a run of blocks\<close>








subsection \<open>The constructors and the result of a call\<close>

lemma Evaluator_init_fields:
  assumes "Evaluator_init P A E n iv out ml X so s = Some (Inr e, s')"
  shows "iv \<noteq> 0 \<and> (\<exists>start. e = \<lparr>start_time = start, n_runs = n, eval_interval = iv,
            outdir = out, max_episode_len = ml, explorer = X, step_offset = so,
            agent = A, env = E, max_score = finfo_float32_min,
            prev_eval_t = so - so mod iv\<rparr>)"
  using assms
  by (auto simp: Evaluator_init_def bnd_Some_iff lift_result_def py_mod_def throw_def ret_def
      split: if_splits)

lemma AsyncEvaluator_init_fields:
  assumes "AsyncEvaluator_init P n iv out ml X so s = Some (Inr a, s')"
  shows "iv \<noteq> 0 \<and> (\<exists>start. a = \<lparr>start_time = start, n_runs = n, eval_interval = iv,
            outdir = out, max_episode_len = ml, explorer = X, step_offset = so,
            shared_prev_eval_t = to_c_long (so - so mod iv),
            shared_max_score = to_c_float finfo_float32_min, wrote_header = False\<rparr>)"
  using assms
  by (auto simp: AsyncEvaluator_init_def bnd_Some_iff lift_result_def py_mod_def throw_def ret_def
      split: if_splits)

lemma evaluate_if_necessary_any:
  assumes "evaluate_if_necessary P t (self, s) = Some (r, (self', s'))"
    and "eval_interval self \<noteq> 0"
  shows "eval_interval self' = eval_interval self
    \<and> (prev_eval_t self' = prev_eval_t self \<or> prev_eval_t self' = t - t mod eval_interval self)"
proof (cases "t \<ge> prev_eval_t self + eval_interval self")
  case False
  with assms show ?thesis by (simp add: evaluate_if_necessary_idle)
next
  case True
  with assms show ?thesis
    by (auto simp: evaluate_if_necessary_due split: option.splits sum.splits prod.splits
        dest!: evaluate_and_update_max_score_self)
qed

lemma evaluate_and_record_mean:
  assumes "evaluate_and_record P self t E A s = Some (Inr mean, s')"
  shows "\<exists>median stdev s1. eval_performance E A (n_runs self) (max_episode_len self)
            (explorer self) s = Some (Inr (mean, median, stdev), s1)"
  using assms
  by (auto simp: evaluate_and_record_def bnd_Some_iff ret_def split: prod.splits)

lemma evaluate_and_update_max_score_mean:
  assumes "evaluate_and_update_max_score P t (self, s) = Some (Inr mean, st')"
  shows "\<exists>s1. evaluate_and_record P self t (env self) (agent self) s = Some (Inr mean, s1)"
  using assms
  by (auto simp: evaluate_and_update_max_score_def bnd_Some_iff on_sys_Some_iff ret_apply
      split: if_splits)

lemma async_evaluate_and_update_max_score_mean:
  assumes "async_evaluate_and_update_max_score P t E A (self, s) = Some (Inr mean, st')"
  shows "\<exists>s1. evaluate_and_record P self t E A s = Some (Inr mean, s1)"
  using assms
  by (auto simp: async_evaluate_and_update_max_score_def bnd_Some_iff on_sys_Some_iff ret_apply
      split: if_splits)

lemma Evaluator_init_prev:
  assumes "Evaluator_init P A E n iv out ml X so s = Some (Inr e, s')"
  shows "prev_eval_t e = so - so mod iv" "eval_interval e = iv" "iv \<noteq> 0"
proof -
  from Evaluator_init_fields[OF assms] obtain start where
    "iv \<noteq> 0" and e: "e = \<lparr>start_time = start, n_runs = n, eval_interval = iv,
            outdir = out, max_episode_len = ml, explorer = X, step_offset = so,
            agent = A, env = E, max_score = finfo_float32_min,
            prev_eval_t = so - so mod iv\<rparr>" by blast
  then show "prev_eval_t e = so - so mod iv" "eval_interval e = iv" "iv \<noteq> 0"
    by simp_all
qed

lemma AsyncEvaluator_init_prev:
  assumes "AsyncEvaluator_init P n iv out ml X so s = Some (Inr a, s')"
  shows "shared_prev_eval_t a = to_c_long (so - so mod iv)" "eval_interval a = iv" "iv \<noteq> 0"
    "shared_max_score a = to_c_float finfo_float32_min" "\<not> wrote_header a"
proof -
  from AsyncEvaluator_init_fields[OF assms] obtain start where
    "iv \<noteq> 0" and e: "a = \<lparr>start_time = start, n_runs = n, eval_interval = iv,
            outdir = out, max_episode_len = ml, explorer = X, step_offset = so,
            shared_prev_eval_t = to_c_long (so - so mod iv),
            shared_max_score = to_c_float finfo_float32_min, wrote_header = False\<rparr>" by blast
  then show "shared_prev_eval_t a = to_c_long (so - so mod iv)" "eval_interval a = iv" "iv \<noteq> 0"
    "shared_max_score a = to_c_float finfo_float32_min" "\<not> wrote_header a"
    by simp_all
qed

lemma evaluate_if_necessary_step:
  assumes "evaluate_if_necessary P t (self, s) = Some (Inr r, (self', s'))"
    and "eval_interval self = iv" "iv \<noteq> 0" "prev_eval_t self = p"
  shows "eval_interval self' = iv"
    and "p + iv \<le> t \<Longrightarrow> r \<noteq> None \<and> prev_eval_t self' = t - t mod iv"
    and "t < p + iv \<Longrightarrow> r = None \<and> self' = self \<and> s' = s"
proof -
  from assms have nz: "eval_interval self \<noteq> 0" by simp
  note st = evaluate_if_necessary_self[OF assms(1) nz]
  from st assms(2) show "eval_interval self' = iv" by simp
  show "r \<noteq> None \<and> prev_eval_t self' = t - t mod iv" if "p + iv \<le> t"
    using st that assms(2,4) by simp
  show "r = None \<and> self' = self \<and> s' = s" if "t < p + iv"
    using st that assms(2,4) by simp
qed

lemma async_evaluate_if_necessary_step:
  assumes "async_evaluate_if_necessary P t E A (self, s) = Some (r, (self', s'))"
    and "eval_interval self = iv" "sint (shared_prev_eval_t self) = p"
  shows "eval_interval self' = iv"
    and "p + iv \<le> t \<Longrightarrow> r \<noteq> Inr None \<and> shared_prev_eval_t self' = to_c_long (p + iv)"
    and "t < p + iv \<Longrightarrow> r = Inr None \<and> self' = self \<and> s' = s"
proof -
  note st = async_evaluate_if_necessary_self[OF assms(1)]
  from st assms(2) show "eval_interval self' = iv" by simp
  show "r \<noteq> Inr None \<and> shared_prev_eval_t self' = to_c_long (p + iv)" if "p + iv \<le> t"
    using st that assms(2,3) by simp
  show "r = Inr None \<and> self' = self \<and> s' = s" if "t < p + iv"
    using st that assms(2,3) by simp
qed

lemma evaluate_if_necessary_mean:
  assumes "prev_eval_t self + eval_interval self \<le> t"
    and "evaluate_if_necessary P t (self, s) = Some (Inr r, st')"
  shows "\<exists>mean median stdev s1. r = Some mean \<and>
     eval_performance (env self) (agent self) (n_runs self) (max_episode_len self)
       (explorer self) s = Some (Inr (mean, median, stdev), s1)"
proof -
  from assms obtain mean st1 where
    "evaluate_and_update_max_score P t (self, s) = Some (Inr mean, st1)" "r = Some mean"
    by (auto simp: evaluate_if_necessary_def bnd_Some_iff ret_apply)
  with evaluate_and_update_max_score_mean[OF this(1)] evaluate_and_record_mean
  show ?thesis by blast
qed

lemma async_evaluate_if_necessary_mean:
  assumes "sint (shared_prev_eval_t self) + eval_interval self \<le> t"
    and "async_evaluate_if_necessary P t E A (self, s) = Some (Inr r, st')"
  shows "\<exists>mean median stdev self1 s1 s2. r = Some mean \<and>
     ensure_header P A (self\<lparr>shared_prev_eval_t :=
         to_c_long (sint (shared_prev_eval_t self) + eval_interval self)\<rparr>, s)
       = Some (Inr (), (self1, s1)) \<and>
     eval_performance E A (n_runs self) (max_episode_len self) (explorer self) s1
       = Some (Inr (mean, median, stdev), s2)"
proof -
  let ?st1 = "(self\<lparr>shared_prev_eval_t :=
         to_c_long (sint (shared_prev_eval_t self) + eval_interval self)\<rparr>, s)"
  from assms obtain self1 s1 mean where
    h: "ensure_header P A ?st1 = Some (Inr (), (self1, s1))"
    and e: "async_evaluate_and_update_max_score P t E A (self1, s1) = Some (Inr mean, st')"
    and r: "r = Some mean"
    by (auto simp: async_evaluate_if_necessary_due bnd_Some_iff ret_apply)
  from ensure_header_self[OF h] have f: "n_runs self1 = n_runs self"
    "max_episode_len self1 = max_episode_len self" "explorer self1 = explorer self"
    by auto
  from async_evaluate_and_update_max_score_mean[OF e] obtain s2 where
    "evaluate_and_record P self1 t E A s1 = Some (Inr mean, s2)" by blast
  from evaluate_and_record_mean[OF this] f h r show ?thesis by auto
qed

text \<open>
  \<^bold>\<open>C3.\<close> For both classes: when \<open>t < prev_eval_t + eval_interval\<close>, the call returns
  \<^verbatim>\<open>None\<close> and changes nothing (the object, the collaborators, the files and the history
  are as before, so no evaluation ran). When \<open>t \<ge> prev_eval_t + eval_interval\<close> and the
  call returns a value, the value is the mean that \<^verbatim>\<open>eval_performance\<close> returned in this
  call; and the call does return the mean whenever the evaluation it runs returns one.
\<close>

theorem evaluate_if_necessary_result:
  "(t < prev_eval_t self + eval_interval self \<longrightarrow>
      evaluate_if_necessary P t (self, s) = Some (Inr None, (self, s)))
   \<and> (prev_eval_t self + eval_interval self \<le> t
        \<and> evaluate_if_necessary P t (self, s) = Some (Inr r, st') \<longrightarrow>
      (\<exists>mean median stdev s1. r = Some mean \<and>
         eval_performance (env self) (agent self) (n_runs self) (max_episode_len self)
           (explorer self) s = Some (Inr (mean, median, stdev), s1)))
   \<and> (prev_eval_t self + eval_interval self \<le> t \<and> eval_interval self \<noteq> 0
        \<and> evaluate_and_update_max_score P t (self, s) = Some (Inr score, (self1, s1)) \<longrightarrow>
      evaluate_if_necessary P t (self, s) =
        Some (Inr (Some score), (self1\<lparr>prev_eval_t := t - t mod eval_interval self\<rparr>, s1)))
   \<and> (t < sint (shared_prev_eval_t a) + eval_interval a \<longrightarrow>
      async_evaluate_if_necessary P t E A (a, s) = Some (Inr None, (a, s)))
   \<and> (sint (shared_prev_eval_t a) + eval_interval a \<le> t
        \<and> async_evaluate_if_necessary P t E A (a, s) = Some (Inr ra, sta) \<longrightarrow>
      (\<exists>mean median stdev a1 s1 s2. ra = Some mean \<and>
         ensure_header P A (a\<lparr>shared_prev_eval_t :=
             to_c_long (sint (shared_prev_eval_t a) + eval_interval a)\<rparr>, s)
           = Some (Inr (), (a1, s1)) \<and>
         eval_performance E A (n_runs a) (max_episode_len a) (explorer a) s1
           = Some (Inr (mean, median, stdev), s2)))
   \<and> (sint (shared_prev_eval_t a) + eval_interval a \<le> t
        \<and> ensure_header P A (a\<lparr>shared_prev_eval_t :=
             to_c_long (sint (shared_prev_eval_t a) + eval_interval a)\<rparr>, s)
           = Some (Inr (), st1)
        \<and> async_evaluate_and_update_max_score P t E A st1 = Some (Inr score, st2) \<longrightarrow>
      async_evaluate_if_necessary P t E A (a, s) = Some (Inr (Some score), st2))"
proof -
  have 3: "evaluate_if_necessary P t (self, s) =
        Some (Inr (Some score), (self1\<lparr>prev_eval_t := t - t mod eval_interval self\<rparr>, s1))"
    if "prev_eval_t self + eval_interval self \<le> t" "eval_interval self \<noteq> 0"
      "evaluate_and_update_max_score P t (self, s) = Some (Inr score, (self1, s1))"
    using that by (simp add: evaluate_if_necessary_due)
  have 6: "async_evaluate_if_necessary P t E A (a, s) = Some (Inr (Some score), st2)"
    if "sint (shared_prev_eval_t a) + eval_interval a \<le> t"
      "ensure_header P A (a\<lparr>shared_prev_eval_t :=
             to_c_long (sint (shared_prev_eval_t a) + eval_interval a)\<rparr>, s)
           = Some (Inr (), st1)"
      "async_evaluate_and_update_max_score P t E A st1 = Some (Inr score, st2)"
    using that by (simp add: async_evaluate_if_necessary_due bnd_Inr ret_apply)
  show ?thesis
    using evaluate_if_necessary_idle[of t self P s]
      evaluate_if_necessary_mean[of self t P s r st'] 3
      async_evaluate_if_necessary_idle[of t a P E A s]
      async_evaluate_if_necessary_mean[of a t P E A s ra sta] 6
    by blast
qed

theorem evaluate_if_necessary_result_witness:
  "50 < prev_eval_t demo_evaluator + eval_interval demo_evaluator
   \<and> evaluate_if_necessary demo_py 50 (demo_evaluator, demo_sys [(3, 1)])
       = Some (Inr None, (demo_evaluator, demo_sys [(3, 1)]))
   \<and> prev_eval_t demo_evaluator + eval_interval demo_evaluator \<le> 100
   \<and> map_option fst (evaluate_if_necessary demo_py 100 (demo_evaluator, demo_sys [(3, 1)]))
       = Some (Inr (Some 3))
   \<and> map_option fst (eval_performance (env demo_evaluator) (agent demo_evaluator)
         (n_runs demo_evaluator) (max_episode_len demo_evaluator) (explorer demo_evaluator)
         (demo_sys [(3, 1)])) = Some (Inr (3, 3, 0))
   \<and> 50 < sint (shared_prev_eval_t demo_async) + eval_interval demo_async
   \<and> async_evaluate_if_necessary demo_py 50 demo_env demo_agent
         (demo_async, demo_async_sys [(3, 1)])
       = Some (Inr None, (demo_async, demo_async_sys [(3, 1)]))
   \<and> sint (shared_prev_eval_t demo_async) + eval_interval demo_async \<le> 100
   \<and> map_option fst (async_evaluate_if_necessary demo_py 100 demo_env demo_agent
         (demo_async, demo_async_sys [(3, 1)])) = Some (Inr (Some 3))"
proof -
  have due: "prev_eval_t demo_evaluator + eval_interval demo_evaluator \<le> 100"
    "eval_interval demo_evaluator \<noteq> 0"
    by (simp_all add: demo_defs)
  have "\<exists>self1 s1. evaluate_and_update_max_score demo_py 100
      (demo_evaluator, demo_sys [(3, 1)]) = Some (Inr 3, (self1, s1))"
    by (simp add: eval_defs)
  then obtain self1 s1 where "evaluate_and_update_max_score demo_py 100
      (demo_evaluator, demo_sys [(3, 1)]) = Some (Inr 3, (self1, s1))" by blast
  with due evaluate_if_necessary_result [of 100 demo_evaluator demo_py "demo_sys [(3, 1)]"
      _ _ 3 self1 s1, THEN conjunct2, THEN conjunct2, THEN conjunct1]
  have "evaluate_if_necessary demo_py 100 (demo_evaluator, demo_sys [(3, 1)]) =
      Some (Inr (Some 3),
        (self1\<lparr>prev_eval_t := 100 - 100 mod eval_interval demo_evaluator\<rparr>, s1))"
    by blast
  then have "map_option fst
      (evaluate_if_necessary demo_py 100 (demo_evaluator, demo_sys [(3, 1)]))
       = Some (Inr (Some 3))"
    by simp
  moreover
  have "50 < sint (shared_prev_eval_t demo_async) + eval_interval demo_async"
    by (simp add: demo_defs sint_to_c_long)
  with evaluate_if_necessary_result [of 50 _ demo_py "demo_async_sys [(3, 1)]" _ _ _ _ _
      demo_async demo_env demo_agent,
      THEN conjunct2, THEN conjunct2, THEN conjunct2, THEN conjunct1]
  have "async_evaluate_if_necessary demo_py 50 demo_env demo_agent
         (demo_async, demo_async_sys [(3, 1)])
       = Some (Inr None, (demo_async, demo_async_sys [(3, 1)]))"
    by blast
  ultimately show ?thesis
    by (simp add: eval_defs)
qed

subsection \<open>How \<^verbatim>\<open>prev_eval_t\<close> advances\<close>

lemma async_prev_after:
  assumes "sint (shared_prev_eval_t a) + eval_interval a \<le> t"
    and "async_evaluate_if_necessary P t E A (a, s) = Some (r, (a', s'))"
  shows "shared_prev_eval_t a' = to_c_long (sint (shared_prev_eval_t a) + eval_interval a)
     \<and> (0 < eval_interval a \<and> t < 2 ^ 63 \<longrightarrow>
          sint (shared_prev_eval_t a') = sint (shared_prev_eval_t a) + eval_interval a)"
proof -
  from async_evaluate_if_necessary_self[OF assms(2)] assms(1)
  have eq: "shared_prev_eval_t a' = to_c_long (sint (shared_prev_eval_t a) + eval_interval a)"
    by simp
  have "sint (shared_prev_eval_t a') = sint (shared_prev_eval_t a) + eval_interval a"
    if "0 < eval_interval a" "t < 2 ^ 63"
  proof -
    have "- (2 ^ 63) \<le> sint (shared_prev_eval_t a)"
      using sint_ge[of "shared_prev_eval_t a"] by simp
    then show ?thesis using that assms(1) unfolding eq
      by (intro sint_to_c_long) auto
  qed
  with eq show ?thesis by blast
qed

lemma evaluator_scenario:
  assumes "Evaluator_init P A E n 100 out ml X 0 s0 = Some (Inr e0, s1)"
  shows "prev_eval_t e0 = 0
    \<and> evaluate_if_necessary P 50 (e0, s1) = Some (Inr None, (e0, s1))
    \<and> (\<forall>r2 e2 s2. evaluate_if_necessary P 100 (e0, s1) = Some (Inr r2, (e2, s2)) \<longrightarrow>
          r2 \<noteq> None \<and> prev_eval_t e2 = 100
          \<and> evaluate_if_necessary P 150 (e2, s2) = Some (Inr None, (e2, s2))
          \<and> (\<forall>r4 e4 s4. evaluate_if_necessary P 250 (e2, s2) = Some (Inr r4, (e4, s4)) \<longrightarrow>
                r4 \<noteq> None \<and> prev_eval_t e4 = 200))"
proof -
  have p0: "prev_eval_t e0 = 0" and i0: "eval_interval e0 = 100"
    using Evaluator_init_prev[OF assms] by simp_all
  have idle0: "evaluate_if_necessary P 50 (e0, s1) = Some (Inr None, (e0, s1))"
    by (rule evaluate_if_necessary_idle) (simp add: p0 i0)
  have 2: "r2 \<noteq> None \<and> prev_eval_t e2 = 100
          \<and> evaluate_if_necessary P 150 (e2, s2) = Some (Inr None, (e2, s2))
          \<and> (\<forall>r4 e4 s4. evaluate_if_necessary P 250 (e2, s2) = Some (Inr r4, (e4, s4)) \<longrightarrow>
                r4 \<noteq> None \<and> prev_eval_t e4 = 200)"
    if c: "evaluate_if_necessary P 100 (e0, s1) = Some (Inr r2, (e2, s2))" for r2 e2 s2
  proof -
    have i2: "eval_interval e2 = 100"
      by (rule evaluate_if_necessary_step(1)[OF c i0 _ p0]) simp
    have "r2 \<noteq> None \<and> prev_eval_t e2 = 100 - 100 mod 100"
      by (rule evaluate_if_necessary_step(2)[OF c i0 _ p0]) simp_all
    then have r2: "r2 \<noteq> None" and p2: "prev_eval_t e2 = 100" by simp_all
    have idle2: "evaluate_if_necessary P 150 (e2, s2) = Some (Inr None, (e2, s2))"
      by (rule evaluate_if_necessary_idle) (simp add: p2 i2)
    have 4: "r4 \<noteq> None \<and> prev_eval_t e4 = 200"
      if d: "evaluate_if_necessary P 250 (e2, s2) = Some (Inr r4, (e4, s4))" for r4 e4 s4
    proof -
      have "r4 \<noteq> None \<and> prev_eval_t e4 = 250 - 250 mod 100"
        by (rule evaluate_if_necessary_step(2)[OF d i2 _ p2]) simp_all
      then show ?thesis by simp
    qed
    from r2 p2 idle2 4 show ?thesis by blast
  qed
  from p0 idle0 2 show ?thesis by blast
qed

lemma async_scenario:
  assumes "AsyncEvaluator_init P n 100 out ml X 0 s0 = Some (Inr a0, s1)"
  shows "sint (shared_prev_eval_t a0) = 0
    \<and> async_evaluate_if_necessary P 50 E A (a0, s1) = Some (Inr None, (a0, s1))
    \<and> (\<forall>r2 a2 s2. async_evaluate_if_necessary P 100 E A (a0, s1) = Some (Inr r2, (a2, s2)) \<longrightarrow>
          r2 \<noteq> None \<and> sint (shared_prev_eval_t a2) = 100
          \<and> async_evaluate_if_necessary P 150 E A (a2, s2) = Some (Inr None, (a2, s2))
          \<and> (\<forall>r4 a4 s4. async_evaluate_if_necessary P 250 E A (a2, s2)
                  = Some (Inr r4, (a4, s4)) \<longrightarrow>
                r4 \<noteq> None \<and> sint (shared_prev_eval_t a4) = 200))"
proof -
  have "shared_prev_eval_t a0 = to_c_long (0 - 0 mod 100)" and i0: "eval_interval a0 = 100"
    using AsyncEvaluator_init_prev[OF assms] by simp_all
  then have p0: "sint (shared_prev_eval_t a0) = 0" by (simp add: sint_to_c_long)
  have idle0: "async_evaluate_if_necessary P 50 E A (a0, s1) = Some (Inr None, (a0, s1))"
    by (rule async_evaluate_if_necessary_idle) (simp add: p0 i0)
  have 2: "r2 \<noteq> None \<and> sint (shared_prev_eval_t a2) = 100
          \<and> async_evaluate_if_necessary P 150 E A (a2, s2) = Some (Inr None, (a2, s2))
          \<and> (\<forall>r4 a4 s4. async_evaluate_if_necessary P 250 E A (a2, s2)
                  = Some (Inr r4, (a4, s4)) \<longrightarrow>
                r4 \<noteq> None \<and> sint (shared_prev_eval_t a4) = 200)"
    if c: "async_evaluate_if_necessary P 100 E A (a0, s1) = Some (Inr r2, (a2, s2))"
    for r2 a2 s2
  proof -
    have i2: "eval_interval a2 = 100"
      by (rule async_evaluate_if_necessary_step(1)[OF c i0 p0])
    have "Inr r2 \<noteq> (Inr None :: error + real option)
        \<and> shared_prev_eval_t a2 = to_c_long (0 + 100)"
      by (rule async_evaluate_if_necessary_step(2)[OF c i0 p0]) simp
    then have r2: "r2 \<noteq> None" and p2: "sint (shared_prev_eval_t a2) = 100"
      by (simp_all add: sint_to_c_long)
    have idle2: "async_evaluate_if_necessary P 150 E A (a2, s2) = Some (Inr None, (a2, s2))"
      by (rule async_evaluate_if_necessary_idle) (simp add: p2 i2)
    have 4: "r4 \<noteq> None \<and> sint (shared_prev_eval_t a4) = 200"
      if d: "async_evaluate_if_necessary P 250 E A (a2, s2) = Some (Inr r4, (a4, s4))"
      for r4 a4 s4
    proof -
      have "Inr r4 \<noteq> (Inr None :: error + real option)
          \<and> shared_prev_eval_t a4 = to_c_long (100 + 100)"
        by (rule async_evaluate_if_necessary_step(2)[OF d i2 p2]) simp
      then show ?thesis by (simp add: sint_to_c_long)
    qed
    from r2 p2 idle2 4 show ?thesis by blast
  qed
  from p0 idle0 2 show ?thesis by blast
qed

text \<open>
  \<^bold>\<open>C1.\<close> \<^verbatim>\<open>AsyncEvaluator\<close> with \<^verbatim>\<open>prev_eval_t = 0\<close> and \<^verbatim>\<open>eval_interval = 100\<close>, called
  at \<open>t = 250\<close>: it evaluates once and leaves \<^verbatim>\<open>prev_eval_t = 100\<close>, not
  \<open>250 - 250 % 100 = 200\<close>.
\<close>

theorem async_prev_eval_t_not_aligned:
  "sint (shared_prev_eval_t demo_async) + eval_interval demo_async \<le> 250
   \<and> map_option (\<lambda>(r, a, s). (r, sint (shared_prev_eval_t a)))
        (async_evaluate_if_necessary demo_py 250 demo_env demo_agent
           (demo_async, demo_async_sys [(1, 1)])) = Some (Inr (Some 1), 100)
   \<and> 250 - 250 mod eval_interval demo_async = 200"
  by (simp add: eval_defs)

text \<open>
  \<^bold>\<open>C1, as the code has it.\<close> Called with \<open>t \<ge> prev_eval_t + eval_interval\<close>,
  \<^verbatim>\<open>Evaluator.evaluate_if_necessary\<close> runs \<^verbatim>\<open>evaluate_and_update_max_score\<close> once and, when
  that returns, sets \<^verbatim>\<open>prev_eval_t\<close> to \<open>t - t % eval_interval\<close>.
  \<^verbatim>\<open>AsyncEvaluator.evaluate_if_necessary\<close> first adds \<^verbatim>\<open>eval_interval\<close> to \<^verbatim>\<open>prev_eval_t\<close>
  (kept in the 64 bits of the C long; the sum itself for \<open>eval_interval > 0\<close> and
  \<open>t < 2\<^sup>6\<^sup>3\<close>), then runs the header block and one evaluation from that state. With
  \<^verbatim>\<open>eval_interval = 100\<close> and \<^verbatim>\<open>step_offset = 0\<close>, both classes answer the calls at
  50, 100, 150, 250 with: nothing, an evaluation and \<^verbatim>\<open>prev_eval_t = 100\<close>, nothing, an
  evaluation and \<^verbatim>\<open>prev_eval_t = 200\<close>.
\<close>

theorem prev_eval_t_advance:
  "(prev_eval_t self + eval_interval self \<le> t \<and> eval_interval self \<noteq> 0
      \<and> evaluate_and_update_max_score P t (self, s) = Some (Inr score, (self1, s1)) \<longrightarrow>
      evaluate_if_necessary P t (self, s) =
        Some (Inr (Some score), (self1\<lparr>prev_eval_t := t - t mod eval_interval self\<rparr>, s1)))
   \<and> (sint (shared_prev_eval_t a) + eval_interval a \<le> t \<longrightarrow>
      async_evaluate_if_necessary P t E A (a, s) =
        bnd (ensure_header P A) (\<lambda>_.
          bnd (async_evaluate_and_update_max_score P t E A) (\<lambda>score. ret (Some score)))
        (a\<lparr>shared_prev_eval_t :=
             to_c_long (sint (shared_prev_eval_t a) + eval_interval a)\<rparr>, s))
   \<and> (sint (shared_prev_eval_t a) + eval_interval a \<le> t
        \<and> async_evaluate_if_necessary P t E A (a, s) = Some (r, (a', s')) \<longrightarrow>
      shared_prev_eval_t a' = to_c_long (sint (shared_prev_eval_t a) + eval_interval a)
      \<and> (0 < eval_interval a \<and> t < 2 ^ 63 \<longrightarrow>
           sint (shared_prev_eval_t a') = sint (shared_prev_eval_t a) + eval_interval a))
   \<and> (Evaluator_init P A0 E0 n 100 out ml X 0 s0 = Some (Inr e0, s2) \<longrightarrow>
      prev_eval_t e0 = 0
      \<and> evaluate_if_necessary P 50 (e0, s2) = Some (Inr None, (e0, s2))
      \<and> (\<forall>r2 e2 s3. evaluate_if_necessary P 100 (e0, s2) = Some (Inr r2, (e2, s3)) \<longrightarrow>
            r2 \<noteq> None \<and> prev_eval_t e2 = 100
            \<and> evaluate_if_necessary P 150 (e2, s3) = Some (Inr None, (e2, s3))
            \<and> (\<forall>r4 e4 s4. evaluate_if_necessary P 250 (e2, s3) = Some (Inr r4, (e4, s4)) \<longrightarrow>
                  r4 \<noteq> None \<and> prev_eval_t e4 = 200)))
   \<and> (AsyncEvaluator_init P n 100 out ml X 0 s0 = Some (Inr a0, s5) \<longrightarrow>
      sint (shared_prev_eval_t a0) = 0
      \<and> async_evaluate_if_necessary P 50 E A (a0, s5) = Some (Inr None, (a0, s5))
      \<and> (\<forall>r2 a2 s6. async_evaluate_if_necessary P 100 E A (a0, s5)
              = Some (Inr r2, (a2, s6)) \<longrightarrow>
            r2 \<noteq> None \<and> sint (shared_prev_eval_t a2) = 100
            \<and> async_evaluate_if_necessary P 150 E A (a2, s6) = Some (Inr None, (a2, s6))
            \<and> (\<forall>r4 a4 s7. async_evaluate_if_necessary P 250 E A (a2, s6)
                    = Some (Inr r4, (a4, s7)) \<longrightarrow>
                  r4 \<noteq> None \<and> sint (shared_prev_eval_t a4) = 200)))"
proof -
  have 1: "evaluate_if_necessary P t (self, s) =
        Some (Inr (Some score), (self1\<lparr>prev_eval_t := t - t mod eval_interval self\<rparr>, s1))"
    if "prev_eval_t self + eval_interval self \<le> t" "eval_interval self \<noteq> 0"
      "evaluate_and_update_max_score P t (self, s) = Some (Inr score, (self1, s1))"
    using that by (simp add: evaluate_if_necessary_due)
  show ?thesis
    apply (intro conjI impI)
    subgoal using 1 by blast
    subgoal by (rule async_evaluate_if_necessary_due)
    subgoal using async_prev_after[of a t P E A s r a' s'] by blast
    subgoal using async_prev_after[of a t P E A s r a' s'] by blast
    subgoal using evaluator_scenario[of P A0 E0 n out ml X s0 e0 s2] by blast
    subgoal using evaluator_scenario[of P A0 E0 n out ml X s0 e0 s2] by blast
    subgoal using evaluator_scenario[of P A0 E0 n out ml X s0 e0 s2] by blast
    subgoal using async_scenario[of P n out ml X s0 a0 s5 E A] by blast
    subgoal using async_scenario[of P n out ml X s0 a0 s5 E A] by blast
    subgoal using async_scenario[of P n out ml X s0 a0 s5 E A] by blast
    done
qed

theorem prev_eval_t_advance_witness:
  "prev_eval_t demo_evaluator + eval_interval demo_evaluator \<le> 250
   \<and> eval_interval demo_evaluator \<noteq> 0
   \<and> map_option (\<lambda>(r, e, s). (r, prev_eval_t e))
        (evaluate_if_necessary demo_py 250 (demo_evaluator, demo_sys [(1, 1)]))
       = Some (Inr (Some 1), 200)
   \<and> map_option fst (Evaluator_init demo_py demo_agent demo_env 1 100 ''out'' None None 0
         (demo_sys [(1, 1), (1, 1)])) = Some (Inr demo_evaluator)
   \<and> Option.bind (Evaluator_init demo_py demo_agent demo_env 1 100 ''out'' None None 0
         (demo_sys [(1, 1), (1, 1)])) (\<lambda>(r0, s1).
       Option.bind (evaluate_if_necessary demo_py 50 (demo_evaluator, s1)) (\<lambda>(r1, e1, s2).
       Option.bind (evaluate_if_necessary demo_py 100 (e1, s2)) (\<lambda>(r2, e2, s3).
       Option.bind (evaluate_if_necessary demo_py 150 (e2, s3)) (\<lambda>(r3, e3, s4).
       Option.bind (evaluate_if_necessary demo_py 250 (e3, s4)) (\<lambda>(r4, e4, s5).
         Some [(r1, prev_eval_t e1), (r2, prev_eval_t e2), (r3, prev_eval_t e3),
               (r4, prev_eval_t e4)])))))
       = Some [(Inr None, 0), (Inr (Some 1), 100), (Inr None, 100), (Inr (Some 1), 200)]
   \<and> AsyncEvaluator_init demo_py 1 100 ''out'' None None 0 (demo_sys [(1, 1), (1, 1)])
       = Some (Inr demo_async, demo_async_sys [(1, 1), (1, 1)])
   \<and> Option.bind (async_evaluate_if_necessary demo_py 50 demo_env demo_agent
         (demo_async, demo_async_sys [(1, 1), (1, 1)])) (\<lambda>(r1, e1, s2).
       Option.bind (async_evaluate_if_necessary demo_py 100 demo_env demo_agent (e1, s2))
         (\<lambda>(r2, e2, s3).
       Option.bind (async_evaluate_if_necessary demo_py 150 demo_env demo_agent (e2, s3))
         (\<lambda>(r3, e3, s4).
       Option.bind (async_evaluate_if_necessary demo_py 250 demo_env demo_agent (e3, s4))
         (\<lambda>(r4, e4, s5).
         Some [(r1, sint (shared_prev_eval_t e1)), (r2, sint (shared_prev_eval_t e2)),
               (r3, sint (shared_prev_eval_t e3)), (r4, sint (shared_prev_eval_t e4))]))))
       = Some [(Inr None, 0), (Inr (Some 1), 100), (Inr None, 100), (Inr (Some 1), 200)]"
proof -
  have "\<exists>self1 s1. evaluate_and_update_max_score demo_py 250
      (demo_evaluator, demo_sys [(1, 1)]) = Some (Inr 1, (self1, s1))"
    by (simp add: eval_defs)
  then obtain self1 s1 where "evaluate_and_update_max_score demo_py 250
      (demo_evaluator, demo_sys [(1, 1)]) = Some (Inr 1, (self1, s1))" by blast
  moreover have "prev_eval_t demo_evaluator + eval_interval demo_evaluator \<le> 250"
    "eval_interval demo_evaluator \<noteq> 0"
    by (simp_all add: demo_defs)
  ultimately have "evaluate_if_necessary demo_py 250 (demo_evaluator, demo_sys [(1, 1)]) =
      Some (Inr (Some 1),
        (self1\<lparr>prev_eval_t := 250 - 250 mod eval_interval demo_evaluator\<rparr>, s1))"
    using prev_eval_t_advance [of demo_evaluator 250 demo_py "demo_sys [(1, 1)]" 1 self1 s1,
        THEN conjunct1]
    by blast
  then have "map_option (\<lambda>(r, e, s). (r, prev_eval_t e))
        (evaluate_if_necessary demo_py 250 (demo_evaluator, demo_sys [(1, 1)]))
       = Some (Inr (Some 1), 200)"
    by (simp add: demo_defs)
  then show ?thesis
    by (simp add: eval_defs)
qed

lemma aligned_mod: "(t - t mod iv) mod iv = (0::int)"
  by (simp add: minus_mod_eq_mult_div)

lemma evaluator_multiple_init:
  assumes "Evaluator_init P A E n iv out ml X so s = Some (Inr e, s')"
  shows "eval_interval e = iv \<and> prev_eval_t e mod iv = 0"
  using Evaluator_init_prev[OF assms] by (simp add: aligned_mod)

lemma evaluator_multiple_step:
  assumes "eval_interval self \<noteq> 0" "prev_eval_t self mod eval_interval self = 0"
    and "evaluate_if_necessary P t (self, s) = Some (r, (self', s'))"
  shows "eval_interval self' = eval_interval self
    \<and> prev_eval_t self' mod eval_interval self' = 0"
proof -
  from evaluate_if_necessary_any[OF assms(3,1)]
  have i: "eval_interval self' = eval_interval self"
    and p: "prev_eval_t self' = prev_eval_t self
       \<or> prev_eval_t self' = t - t mod eval_interval self" by simp_all
  from p show ?thesis
  proof
    assume "prev_eval_t self' = prev_eval_t self"
    with i assms(2) show ?thesis by simp
  next
    assume "prev_eval_t self' = t - t mod eval_interval self"
    with i show ?thesis by (simp add: aligned_mod)
  qed
qed

lemma async_multiple_init:
  assumes "- (2 ^ 63) \<le> so - so mod iv" "so - so mod iv < 2 ^ 63"
    and "AsyncEvaluator_init P n iv out ml X so s = Some (Inr a, s')"
  shows "eval_interval a = iv \<and> sint (shared_prev_eval_t a) mod iv = 0"
proof -
  from AsyncEvaluator_init_prev[OF assms(3)]
  have "shared_prev_eval_t a = to_c_long (so - so mod iv)" "eval_interval a = iv" by simp_all
  moreover have "sint (to_c_long (so - so mod iv)) = so - so mod iv"
    by (rule sint_to_c_long) (use assms in simp_all)
  ultimately show ?thesis by (simp add: aligned_mod)
qed

lemma async_multiple_step:
  assumes "0 < eval_interval a" "sint (shared_prev_eval_t a) mod eval_interval a = 0"
    and "t < 2 ^ 63"
    and "async_evaluate_if_necessary P t E A (a, s) = Some (r, (a', s'))"
  shows "eval_interval a' = eval_interval a
    \<and> sint (shared_prev_eval_t a') mod eval_interval a' = 0"
proof (cases "sint (shared_prev_eval_t a) + eval_interval a \<le> t")
  case True
  from async_prev_after[OF True assms(4)] assms(1,3)
  have "sint (shared_prev_eval_t a') = sint (shared_prev_eval_t a) + eval_interval a" by blast
  moreover have "eval_interval a' = eval_interval a"
    by (rule async_evaluate_if_necessary_step(1)[OF assms(4) refl refl])
  ultimately show ?thesis using assms(2) by simp
next
  case False
  then have "t < sint (shared_prev_eval_t a) + eval_interval a" by simp
  from async_evaluate_if_necessary_step(3)[OF assms(4) refl refl this] assms(2)
  show ?thesis by simp
qed

text \<open>
  \<^bold>\<open>C10.\<close> \<^verbatim>\<open>AsyncEvaluator\<close> made with \<^verbatim>\<open>eval_interval = 3\<close> and
  \<^verbatim>\<open>step_offset = 2\<^sup>6\<^sup>3 + 1\<close>, a multiple of 3: the C long keeps the low 64 bits, and
  \<^verbatim>\<open>prev_eval_t\<close> reads \<open>- 2\<^sup>6\<^sup>3 + 1\<close>, which leaves remainder 2.
\<close>

theorem async_prev_eval_t_wraps:
  "map_option (\<lambda>(r, s). case r of Inl e \<Rightarrow> None
       | Inr a \<Rightarrow> Some (eval_interval a, sint (shared_prev_eval_t a),
                      sint (shared_prev_eval_t a) mod eval_interval a))
     (AsyncEvaluator_init demo_py 1 3 ''out'' None None 9223372036854775809 (demo_sys []))
     = Some (Some (3, - 9223372036854775807, 2))"
  by (simp add: AsyncEvaluator_init_def now_def bnd_def lift_result_def py_mod_def ret_def
      open_file_def note_event_def demo_defs to_c_long_def int_word_sint)

text \<open>
  \<^bold>\<open>C10, as the code has it.\<close> For \<^verbatim>\<open>eval_interval > 0\<close>: in \<^verbatim>\<open>Evaluator\<close>,
  \<^verbatim>\<open>prev_eval_t\<close> is a multiple of \<^verbatim>\<open>eval_interval\<close> after construction and stays one
  over every call of \<^verbatim>\<open>evaluate_if_necessary\<close>, whether the call returns a score, returns
  \<^verbatim>\<open>None\<close> or raises. In \<^verbatim>\<open>AsyncEvaluator\<close> the same holds when the values fit the
  C long: \<^verbatim>\<open>step_offset\<close> rounded down to \<^verbatim>\<open>eval_interval\<close> lies in
  \<open>[- 2\<^sup>6\<^sup>3, 2\<^sup>6\<^sup>3)\<close> at construction, and \<open>t < 2\<^sup>6\<^sup>3\<close> at every call.
\<close>

theorem prev_eval_t_multiple:
  "(0 < iv \<and> Evaluator_init P A E n iv out ml X so s = Some (Inr e, s0) \<longrightarrow>
      eval_interval e = iv \<and> prev_eval_t e mod iv = 0)
   \<and> (0 < eval_interval self \<and> prev_eval_t self mod eval_interval self = 0
        \<and> evaluate_if_necessary P t (self, s1) = Some (r, (self', s1')) \<longrightarrow>
      eval_interval self' = eval_interval self
      \<and> prev_eval_t self' mod eval_interval self' = 0)
   \<and> (0 < iv \<and> - (2 ^ 63) \<le> so - so mod iv \<and> so - so mod iv < 2 ^ 63
        \<and> AsyncEvaluator_init P n iv out ml X' so s = Some (Inr a0, s2) \<longrightarrow>
      eval_interval a0 = iv \<and> sint (shared_prev_eval_t a0) mod iv = 0)
   \<and> (0 < eval_interval a \<and> sint (shared_prev_eval_t a) mod eval_interval a = 0
        \<and> t < 2 ^ 63
        \<and> async_evaluate_if_necessary P t E' A' (a, s3) = Some (ra, (a', s3')) \<longrightarrow>
      eval_interval a' = eval_interval a
      \<and> sint (shared_prev_eval_t a') mod eval_interval a' = 0)"
  using evaluator_multiple_init[of P A E n iv out ml X so s e s0]
    evaluator_multiple_step[of self P t s1 r self' s1']
    async_multiple_init[of so iv P n out ml X' s a0 s2]
    async_multiple_step[of a t P E' A' s3 ra a' s3']
  by force

theorem prev_eval_t_multiple_witness:
  "(0::int) < 100
   \<and> map_option fst (Evaluator_init demo_py demo_agent demo_env 1 100 ''out'' None None 250
         (demo_sys [])) = Some (Inr (demo_evaluator\<lparr>step_offset := 250, prev_eval_t := 200\<rparr>))
   \<and> (200::int) mod 100 = 0
   \<and> prev_eval_t demo_evaluator mod eval_interval demo_evaluator = 0
   \<and> map_option (\<lambda>(r, e, s). (r, prev_eval_t e, prev_eval_t e mod eval_interval e))
        (evaluate_if_necessary demo_py 250 (demo_evaluator, demo_sys [(1, 1)]))
       = Some (Inr (Some 1), 200, 0)
   \<and> - (2 ^ 63) \<le> (250::int) - 250 mod 100 \<and> (250::int) - 250 mod 100 < 2 ^ 63
   \<and> map_option fst (AsyncEvaluator_init demo_py 1 100 ''out'' None None 250 (demo_sys []))
       = Some (Inr (demo_async\<lparr>step_offset := 250, shared_prev_eval_t := to_c_long 200\<rparr>))
   \<and> sint (shared_prev_eval_t demo_async) mod eval_interval demo_async = 0
   \<and> (250::int) < 2 ^ 63
   \<and> map_option (\<lambda>(r, a, s). (r, sint (shared_prev_eval_t a),
          sint (shared_prev_eval_t a) mod eval_interval a))
        (async_evaluate_if_necessary demo_py 250 demo_env demo_agent
           (demo_async, demo_async_sys [(1, 1)])) = Some (Inr (Some 1), 100, 0)"
proof -
  have "\<exists>r e s. evaluate_if_necessary demo_py 250 (demo_evaluator, demo_sys [(1, 1)])
      = Some (r, (e, s)) \<and> r = Inr (Some 1) \<and> prev_eval_t e = 200"
    by (simp add: eval_defs)
  then obtain r e s where c: "evaluate_if_necessary demo_py 250
      (demo_evaluator, demo_sys [(1, 1)]) = Some (r, (e, s))" "r = Inr (Some 1)"
      "prev_eval_t e = 200" by blast
  have "0 < eval_interval demo_evaluator"
    "prev_eval_t demo_evaluator mod eval_interval demo_evaluator = 0"
    by (simp_all add: demo_defs)
  with c(1) prev_eval_t_multiple [of _ demo_py _ _ _ _ _ _ _ _ _ _ demo_evaluator 250
      "demo_sys [(1, 1)]" r e s, THEN conjunct2, THEN conjunct1]
  have "prev_eval_t e mod eval_interval e = 0" by blast
  with c have "map_option (\<lambda>(r, e, s). (r, prev_eval_t e, prev_eval_t e mod eval_interval e))
        (evaluate_if_necessary demo_py 250 (demo_evaluator, demo_sys [(1, 1)]))
       = Some (Inr (Some 1), 200, 0)"
    by simp
  then show ?thesis
    by (simp add: eval_defs)
qed

subsection \<open>The best score and its checkpoint\<close>

lemma saves_of_append [simp]: "saves_of (xs @ ys) = saves_of xs @ saves_of ys"
  by (induction xs) (auto split: event.splits)

lemma saves_of_none: "list_all (\<lambda>e. \<forall>d. e \<noteq> Ev_save d) new \<Longrightarrow> saves_of new = []"
  by (induction new) (auto split: event.splits)

lemma adds_evaluate_and_record_no_save:
  "adds_only trace (\<lambda>e. \<forall>d. e \<noteq> Ev_save d) (evaluate_and_record P self t E A)"
proof -
  have ep: "adds_only trace (\<lambda>e. \<forall>d. e \<noteq> Ev_save d) (eval_performance E A n m X)" for n m X
    by (rule adds_only_mono[OF adds_eval_performance]) (auto simp: episode_event_def)
  show ?thesis
    unfolding evaluate_and_record_def record_stats_def
    by (intro adds_bnd adds_case_prod adds_now adds_call_world adds_open_file adds_print_file
        adds_ret ep) simp_all
qed

lemma bnd_on_sys_Inr:
  "m s = Some (Inr x, s') \<Longrightarrow> bnd (on_sys m) f (self, s) = f x (self, s')"
  by (simp add: bnd_def on_sys_def)

lemma bnd_on_sys_Inl:
  "m s = Some (Inl e, s') \<Longrightarrow> bnd (on_sys m) f (self, s) = Some (Inl e, (self, s'))"
  by (simp add: bnd_def on_sys_def)

lemma bnd_on_sys_None:
  "m s = None \<Longrightarrow> bnd (on_sys m) f (self, s) = None"
  by (simp add: bnd_def on_sys_def)

lemma update_best_model_apply:
  "update_best_model A out t old mean s =
     (case agent_save A (os_path_join out (str_int t)) (world s) of
        (Inl e, w') \<Rightarrow> Some (Inl e, s\<lparr>world := w', trace := trace s @
            [Ev_info_best mean, Ev_save (os_path_join out (str_int t))]\<rparr>)
      | (Inr u, w') \<Rightarrow> Some (Inr (), s\<lparr>world := w', trace := trace s @
            [Ev_info_best mean, Ev_save (os_path_join out (str_int t)),
             Ev_info_saved (os_path_join out (str_int t))]\<rparr>))"
  by (simp add: update_best_model_def save_agent_def logger_info_def note_event_def bnd_def
      call_world_def Let_def split: prod.splits sum.splits)

lemma evaluate_and_update_max_score_apply:
  assumes "evaluate_and_record P self t (env self) (agent self) s = Some (Inr mean, s1)"
  shows "evaluate_and_update_max_score P t (self, s) =
     (if mean > max_score self
      then (case agent_save (agent self) (os_path_join (outdir self) (str_int t)) (world s1) of
          (Inl e, w') \<Rightarrow> Some (Inl e, (self, s1\<lparr>world := w', trace := trace s1 @
            [Ev_info_best mean, Ev_save (os_path_join (outdir self) (str_int t))]\<rparr>))
        | (Inr u, w') \<Rightarrow> Some (Inr mean, (self\<lparr>max_score := mean\<rparr>,
            s1\<lparr>world := w', trace := trace s1 @
            [Ev_info_best mean, Ev_save (os_path_join (outdir self) (str_int t)),
             Ev_info_saved (os_path_join (outdir self) (str_int t))]\<rparr>)))
      else Some (Inr mean, (self, s1)))"
  using assms
  by (simp add: evaluate_and_update_max_score_def bnd_on_sys_Inr ret_apply
      update_best_model_apply on_sys_def bnd_def split: prod.splits sum.splits)

lemma async_evaluate_and_update_max_score_apply:
  assumes "evaluate_and_record P self t E A s = Some (Inr mean, s1)"
  shows "async_evaluate_and_update_max_score P t E A (self, s) =
     (if gt_c_float mean (shared_max_score self)
      then (case agent_save A (os_path_join (outdir self) (str_int t)) (world s1) of
          (Inl e, w') \<Rightarrow> Some (Inl e, (self, s1\<lparr>world := w', trace := trace s1 @
            [Ev_info_best mean, Ev_save (os_path_join (outdir self) (str_int t))]\<rparr>))
        | (Inr u, w') \<Rightarrow> Some (Inr mean, (self\<lparr>shared_max_score := to_c_float mean\<rparr>,
            s1\<lparr>world := w', trace := trace s1 @
            [Ev_info_best mean, Ev_save (os_path_join (outdir self) (str_int t)),
             Ev_info_saved (os_path_join (outdir self) (str_int t))]\<rparr>)))
      else Some (Inr mean, (self, s1)))"
  using assms
  by (simp add: async_evaluate_and_update_max_score_def bnd_on_sys_Inr ret_apply
      update_best_model_apply on_sys_def bnd_def split: prod.splits sum.splits)

lemma evaluate_and_update_max_score_saves:
  assumes "evaluate_and_update_max_score P t (self, s) = Some (Inr mean, (self', s'))"
  shows "saves_of (trace s') = saves_of (trace s) @
           (if mean > max_score self then [os_path_join (outdir self) (str_int t)] else [])
     \<and> self' = (if mean > max_score self then self\<lparr>max_score := mean\<rparr> else self)"
proof -
  from evaluate_and_update_max_score_mean[OF assms] obtain s1 where
    r: "evaluate_and_record P self t (env self) (agent self) s = Some (Inr mean, s1)" by blast
  from adds_onlyD[OF adds_evaluate_and_record_no_save r] obtain new where
    "trace s1 = trace s @ new" "saves_of new = []" by (auto dest: saves_of_none)
  with assms show ?thesis
    unfolding evaluate_and_update_max_score_apply[OF r]
    by (auto split: if_splits prod.splits sum.splits)
qed

lemma async_evaluate_and_update_max_score_saves:
  assumes "async_evaluate_and_update_max_score P t E A (self, s) = Some (Inr mean, (self', s'))"
  shows "saves_of (trace s') = saves_of (trace s) @
           (if gt_c_float mean (shared_max_score self)
            then [os_path_join (outdir self) (str_int t)] else [])
     \<and> self' = (if gt_c_float mean (shared_max_score self)
                then self\<lparr>shared_max_score := to_c_float mean\<rparr> else self)"
proof -
  from async_evaluate_and_update_max_score_mean[OF assms] obtain s1 where
    r: "evaluate_and_record P self t E A s = Some (Inr mean, s1)" by blast
  from adds_onlyD[OF adds_evaluate_and_record_no_save r] obtain new where
    "trace s1 = trace s @ new" "saves_of new = []" by (auto dest: saves_of_none)
  with assms show ?thesis
    unfolding async_evaluate_and_update_max_score_apply[OF r]
    by (auto split: if_splits prod.splits sum.splits)
qed

text \<open>
  \<^bold>\<open>C2.\<close> \<^verbatim>\<open>AsyncEvaluator\<close>, two evaluations with the same mean \<open>16777217 = 2\<^sup>2\<^sup>4 + 1\<close>:
  the first is a new best score and is saved, but \<^verbatim>\<open>max_score\<close> becomes \<open>16777216\<close>, not
  the mean; the second, whose mean equals the best mean so far, is greater than the
  stored \<^verbatim>\<open>max_score\<close> and is saved again.
\<close>

theorem async_equal_mean_saved_again:
  "Option.bind (async_evaluate_and_update_max_score demo_py 100 demo_env demo_agent
       (demo_async, demo_async_sys [(16777217, 1), (16777217, 1)])) (\<lambda>(r1, a1, s1).
     Option.bind (async_evaluate_and_update_max_score demo_py 200 demo_env demo_agent (a1, s1))
       (\<lambda>(r2, a2, s2).
         Some (r1, shared_max_score a1, saves_of (trace s1),
               r2, shared_max_score a2, saves_of (trace s2))))
   = Some (Inr 16777217, Finite 16777216, [''out/100''],
           Inr 16777217, Finite 16777216, [''out/100'', ''out/200''])"
  by (simp add: eval_defs to_c_float_16777217)

text \<open>
  \<^bold>\<open>C2, as the code has it.\<close> For both classes: when
  \<^verbatim>\<open>evaluate_and_update_max_score\<close> returns the mean, \<^verbatim>\<open>agent.save\<close> was called in it exactly
  when the mean is strictly greater than the stored \<^verbatim>\<open>max_score\<close>, once, with the
  directory \<^verbatim>\<open>os.path.join(outdir, str(t))\<close>, and \<^verbatim>\<open>max_score\<close> was updated exactly then;
  with a mean equal to the stored \<^verbatim>\<open>max_score\<close> nothing is saved and \<^verbatim>\<open>max_score\<close> stays.
  \<^verbatim>\<open>Evaluator\<close> stores the mean itself; \<^verbatim>\<open>AsyncEvaluator\<close> compares with the value in
  its C float cell and stores the mean rounded to float32. Once the scores are
  recorded, the method does just this: it compares, and saves and updates or does
  neither (when \<^verbatim>\<open>agent.save\<close> raises, \<^verbatim>\<open>max_score\<close> stays as it was).
\<close>

theorem checkpoint_iff_strictly_greater:
  "(evaluate_and_update_max_score P t (self, s) = Some (Inr mean, (self', s')) \<longrightarrow>
      saves_of (trace s') = saves_of (trace s) @
           (if mean > max_score self then [os_path_join (outdir self) (str_int t)] else [])
      \<and> self' = (if mean > max_score self then self\<lparr>max_score := mean\<rparr> else self))
   \<and> (evaluate_and_record P self t (env self) (agent self) s = Some (Inr mean, s1) \<longrightarrow>
      evaluate_and_update_max_score P t (self, s) =
       (if mean > max_score self
        then (case agent_save (agent self) (os_path_join (outdir self) (str_int t)) (world s1) of
            (Inl e, w') \<Rightarrow> Some (Inl e, (self, s1\<lparr>world := w', trace := trace s1 @
              [Ev_info_best mean, Ev_save (os_path_join (outdir self) (str_int t))]\<rparr>))
          | (Inr u, w') \<Rightarrow> Some (Inr mean, (self\<lparr>max_score := mean\<rparr>,
              s1\<lparr>world := w', trace := trace s1 @
              [Ev_info_best mean, Ev_save (os_path_join (outdir self) (str_int t)),
               Ev_info_saved (os_path_join (outdir self) (str_int t))]\<rparr>)))
        else Some (Inr mean, (self, s1))))
   \<and> (async_evaluate_and_update_max_score P t E A (a, s) = Some (Inr mean, (a', s2')) \<longrightarrow>
      saves_of (trace s2') = saves_of (trace s) @
           (if gt_c_float mean (shared_max_score a)
            then [os_path_join (outdir a) (str_int t)] else [])
      \<and> a' = (if gt_c_float mean (shared_max_score a)
              then a\<lparr>shared_max_score := to_c_float mean\<rparr> else a))
   \<and> (evaluate_and_record P a t E A s = Some (Inr mean, s3) \<longrightarrow>
      async_evaluate_and_update_max_score P t E A (a, s) =
       (if gt_c_float mean (shared_max_score a)
        then (case agent_save A (os_path_join (outdir a) (str_int t)) (world s3) of
            (Inl e, w') \<Rightarrow> Some (Inl e, (a, s3\<lparr>world := w', trace := trace s3 @
              [Ev_info_best mean, Ev_save (os_path_join (outdir a) (str_int t))]\<rparr>))
          | (Inr u, w') \<Rightarrow> Some (Inr mean, (a\<lparr>shared_max_score := to_c_float mean\<rparr>,
              s3\<lparr>world := w', trace := trace s3 @
              [Ev_info_best mean, Ev_save (os_path_join (outdir a) (str_int t)),
               Ev_info_saved (os_path_join (outdir a) (str_int t))]\<rparr>)))
        else Some (Inr mean, (a, s3))))"
  apply (intro conjI impI)
  subgoal using evaluate_and_update_max_score_saves[of P t self s mean self' s'] by blast
  subgoal using evaluate_and_update_max_score_saves[of P t self s mean self' s'] by blast
  subgoal by (rule evaluate_and_update_max_score_apply)
  subgoal using async_evaluate_and_update_max_score_saves[of P t E A a s mean a' s2'] by blast
  subgoal using async_evaluate_and_update_max_score_saves[of P t E A a s mean a' s2'] by blast
  subgoal by (rule async_evaluate_and_update_max_score_apply)
  done

theorem checkpoint_iff_strictly_greater_witness:
  "map_option (\<lambda>(r, e, s). (r, max_score e, saves_of (trace s)))
      (evaluate_and_update_max_score demo_py 100
         (demo_evaluator\<lparr>max_score := 2\<rparr>, demo_sys [(3, 1)]))
     = Some (Inr 3, 3, [''out/100''])
   \<and> map_option (\<lambda>(r, e, s). (r, max_score e, saves_of (trace s)))
      (evaluate_and_update_max_score demo_py 100
         (demo_evaluator\<lparr>max_score := 3\<rparr>, demo_sys [(3, 1)]))
     = Some (Inr 3, 3, [])
   \<and> map_option (\<lambda>(r, a, s). (r, shared_max_score a, saves_of (trace s)))
      (async_evaluate_and_update_max_score demo_py 200 demo_env demo_agent
         (demo_async\<lparr>shared_max_score := Finite 0\<rparr>, demo_async_sys [(1, 1)]))
     = Some (Inr 1, Finite 1, [''out/200''])
   \<and> map_option (\<lambda>(r, a, s). (r, shared_max_score a, saves_of (trace s)))
      (async_evaluate_and_update_max_score demo_py 200 demo_env demo_agent
         (demo_async\<lparr>shared_max_score := Finite 1\<rparr>, demo_async_sys [(1, 1)]))
     = Some (Inr 1, Finite 1, [])"
proof -
  have "\<exists>e s'. evaluate_and_update_max_score demo_py 100
         (demo_evaluator\<lparr>max_score := 3\<rparr>, demo_sys [(3, 1)]) = Some (Inr 3, (e, s'))"
    by (simp add: eval_defs)
  then obtain e s' where c: "evaluate_and_update_max_score demo_py 100
         (demo_evaluator\<lparr>max_score := 3\<rparr>, demo_sys [(3, 1)]) = Some (Inr 3, (e, s'))"
    by blast
  from checkpoint_iff_strictly_greater [of demo_py 100 "demo_evaluator\<lparr>max_score := 3\<rparr>"
      "demo_sys [(3, 1)]" 3 e s', THEN conjunct1] c
  have "saves_of (trace s') = saves_of (trace (demo_sys [(3, 1)])) @
           (if 3 > max_score (demo_evaluator\<lparr>max_score := 3\<rparr>)
            then [os_path_join (outdir (demo_evaluator\<lparr>max_score := 3\<rparr>)) (str_int 100)]
            else [])
      \<and> e = (if 3 > max_score (demo_evaluator\<lparr>max_score := 3\<rparr>)
             then demo_evaluator\<lparr>max_score := 3, max_score := 3\<rparr>
             else demo_evaluator\<lparr>max_score := 3\<rparr>)"
    by blast
  then have "saves_of (trace s') = [] \<and> max_score e = 3"
    by (simp add: demo_defs)
  with c have "map_option (\<lambda>(r, e, s). (r, max_score e, saves_of (trace s)))
      (evaluate_and_update_max_score demo_py 100
         (demo_evaluator\<lparr>max_score := 3\<rparr>, demo_sys [(3, 1)]))
     = Some (Inr 3, 3, [])"
    by simp
  then show ?thesis
    by (simp add: eval_defs)
qed

text \<open>
  \<^bold>\<open>C5.\<close> \<^verbatim>\<open>AsyncEvaluator\<close> keeps \<^verbatim>\<open>max_score\<close> in \<^verbatim>\<open>mp.Value('f', ...)\<close>, a C float
  of 32 bits. After an evaluation with mean \<open>16777217 = 2\<^sup>2\<^sup>4 + 1\<close>, a new best score, the
  accessor returns \<open>16777216\<close>.
\<close>

theorem async_max_score_narrowed:
  "map_option (\<lambda>(r, a, s). (r, async_max_score a))
      (async_evaluate_and_update_max_score demo_py 100 demo_env demo_agent
         (demo_async, demo_async_sys [(16777217, 1)]))
     = Some (Inr 16777217, Finite 16777216)"
  by (simp add: eval_defs async_max_score_def to_c_float_16777217)

text \<open>
  \<^bold>\<open>C5, as the code has it.\<close> Both classes start \<^verbatim>\<open>max_score\<close> at the smallest finite
  float32, \<open>- (2\<^sup>2\<^sup>4 - 1) times 2\<^sup>1\<^sup>0\<^sup>4\<close>. After a best-score update, \<^verbatim>\<open>Evaluator.max_score\<close>
  is the new mean exactly, and the accessor of \<^verbatim>\<open>AsyncEvaluator\<close> returns the new mean
  rounded to float32.
\<close>

theorem max_score_stored:
  "(Evaluator_init P A0 E0 n iv out ml X so s0 = Some (Inr e, s0') \<longrightarrow>
      max_score e = finfo_float32_min)
   \<and> finfo_float32_min = - ((2 ^ 24 - 1) * 2 ^ 104)
   \<and> (mean > max_score self
        \<and> evaluate_and_update_max_score P t (self, s) = Some (Inr mean, (self', s')) \<longrightarrow>
      max_score self' = mean)
   \<and> (AsyncEvaluator_init P n iv out ml X' so s0 = Some (Inr a0, s1') \<longrightarrow>
      async_max_score a0 = Finite finfo_float32_min)
   \<and> (gt_c_float mean (shared_max_score a)
        \<and> async_evaluate_and_update_max_score P t E A (a, s) = Some (Inr mean, (a', s2')) \<longrightarrow>
      async_max_score a' = to_c_float mean)"
  apply (intro conjI impI)
  subgoal using Evaluator_init_fields[of P A0 E0 n iv out ml X so s0 e s0'] by auto
  subgoal by (simp add: finfo_float32_min_def f32_max_def)
  subgoal using evaluate_and_update_max_score_saves[of P t self s mean self' s'] by auto
  subgoal using AsyncEvaluator_init_prev(4)[of P n iv out ml X' so s0 a0 s1']
    by (simp add: async_max_score_def to_c_float_min)
  subgoal using async_evaluate_and_update_max_score_saves[of P t E A a s mean a' s2']
    by (auto simp: async_max_score_def)
  done

theorem max_score_stored_witness:
  "map_option (\<lambda>(r, s). map_sum id max_score r)
      (Evaluator_init demo_py demo_agent demo_env 1 100 ''out'' None None 0 (demo_sys []))
     = Some (Inr finfo_float32_min)
   \<and> (3::real) > max_score (demo_evaluator\<lparr>max_score := 2\<rparr>)
   \<and> map_option (\<lambda>(r, e, s). (r, max_score e))
      (evaluate_and_update_max_score demo_py 100
         (demo_evaluator\<lparr>max_score := 2\<rparr>, demo_sys [(3, 1)]))
     = Some (Inr 3, 3)
   \<and> map_option (\<lambda>(r, s). map_sum id async_max_score r)
      (AsyncEvaluator_init demo_py 1 100 ''out'' None None 0 (demo_sys []))
     = Some (Inr (Finite finfo_float32_min))
   \<and> gt_c_float 1 (shared_max_score demo_async)
   \<and> map_option (\<lambda>(r, a, s). (r, async_max_score a))
      (async_evaluate_and_update_max_score demo_py 100 demo_env demo_agent
         (demo_async, demo_async_sys [(1, 1)]))
     = Some (Inr 1, Finite 1)
   \<and> to_c_float 1 = Finite 1"
proof -
  have "\<exists>e s'. evaluate_and_update_max_score demo_py 100
         (demo_evaluator\<lparr>max_score := 2\<rparr>, demo_sys [(3, 1)]) = Some (Inr 3, (e, s'))"
    by (simp add: eval_defs)
  then obtain e s' where c: "evaluate_and_update_max_score demo_py 100
         (demo_evaluator\<lparr>max_score := 2\<rparr>, demo_sys [(3, 1)]) = Some (Inr 3, (e, s'))"
    by blast
  have "(3::real) > max_score (demo_evaluator\<lparr>max_score := 2\<rparr>)" by simp
  with c max_score_stored [where P = demo_py and mean = 3
      and self = "demo_evaluator\<lparr>max_score := 2\<rparr>" and t = 100
      and s = "demo_sys [(3, 1)]" and self' = e and s' = s', THEN conjunct2, THEN conjunct2, THEN conjunct1]
  have "max_score e = 3" by blast
  with c have "map_option (\<lambda>(r, e, s). (r, max_score e))
      (evaluate_and_update_max_score demo_py 100
         (demo_evaluator\<lparr>max_score := 2\<rparr>, demo_sys [(3, 1)]))
     = Some (Inr 3, 3)"
    by simp
  then show ?thesis
    by (simp add: eval_defs async_max_score_def)
qed

subsection \<open>The header that \<^verbatim>\<open>Evaluator\<close> writes\<close>









subsection \<open>Exceptions\<close>

lemma episode_loop_step:
  assumes "\<not> dn" "Some t \<noteq> m"
  shows "episode_loop E A X m obs dn tr t s =
     bnd (select A X t obs) (\<lambda>a.
       bnd (call_step E a) (\<lambda>(obs', r, done').
         episode_loop E A X m obs' done' (tr + r) (t + 1))) s"
  using assms by (subst episode_loop.simps) simp

lemma loop_select_raises:
  "\<not> dn \<Longrightarrow> Some t \<noteq> m \<Longrightarrow> select A X t obs s = Some (Inl e, s1) \<Longrightarrow>
     episode_loop E A X m obs dn tr t s = Some (Inl e, s1)"
  by (simp add: episode_loop_step bnd_Inl)

lemma loop_step_raises:
  "\<not> dn \<Longrightarrow> Some t \<noteq> m \<Longrightarrow> select A X t obs s = Some (Inr a, s1) \<Longrightarrow>
   call_step E a s1 = Some (Inl e, s2) \<Longrightarrow>
     episode_loop E A X m obs dn tr t s = Some (Inl e, s2)"
  by (simp add: episode_loop_step bnd_Inl bnd_Inr)

lemma loop_step_returns:
  "\<not> dn \<Longrightarrow> Some t \<noteq> m \<Longrightarrow> select A X t obs s = Some (Inr a, s1) \<Longrightarrow>
   call_step E a s1 = Some (Inr (obs', x, d), s2) \<Longrightarrow>
     episode_loop E A X m obs dn tr t s = episode_loop E A X m obs' d (tr + x) (t + 1) s2"
  by (simp add: episode_loop_step bnd_Inr)

lemma episode_reset_raises:
  "call_world Ev_reset (env_reset E) s = Some (Inl e, s1) \<Longrightarrow>
     episode E A X m i s = Some (Inl e, s1)"
  by (simp add: episode_def bnd_Inl)

lemma episode_loop_raises:
  "call_world Ev_reset (env_reset E) s = Some (Inr obs, s1) \<Longrightarrow>
   episode_loop E A X m obs False 0 0 s1 = Some (Inl e, s2) \<Longrightarrow>
     episode E A X m i s = Some (Inl e, s2)"
  by (simp add: episode_def bnd_Inl bnd_Inr)

lemma episode_stop_raises:
  "call_world Ev_reset (env_reset E) s = Some (Inr obs, s1) \<Longrightarrow>
   episode_loop E A X m obs False 0 0 s1 = Some (Inr (tr, t), s2) \<Longrightarrow>
   call_world Ev_stop_episode (agent_stop_episode A) s2 = Some (Inl e, s3) \<Longrightarrow>
     episode E A X m i s = Some (Inl e, s3)"
  by (simp add: episode_def bnd_Inl bnd_Inr)

lemma run_episodes_raises:
  "episode E A X m i s = Some (Inl e, s1) \<Longrightarrow>
     run_episodes E A X m (i # js) acc s = Some (Inl e, s1)"
  by (simp add: bnd_Inl)

lemma run_episodes_next:
  "episode E A X m i s = Some (Inr x, s1) \<Longrightarrow>
     run_episodes E A X m (i # js) acc s = run_episodes E A X m js (acc @ [x]) s1"
  by (simp add: bnd_Inr)

lemma eval_performance_raises:
  "run_episodes E A X m (py_range n) [] s = Some (Inl e, s1) \<Longrightarrow>
     eval_performance E A n m X s = Some (Inl e, s1)"
  by (simp add: eval_performance_def bnd_Inl)

lemma open_file_raises:
  "open_error P path mode (world s) = Some e \<Longrightarrow>
     open_file P path mode s = Some (Inl e, s\<lparr>trace := trace s @ [Ev_open path mode]\<rparr>)"
  by (simp add: open_file_def bnd_def note_event_def throw_def)

lemma print_file_raises:
  "write_error P path (world s) = Some e \<Longrightarrow>
     print_file P path mode text s =
       Some (Inl e, s\<lparr>trace := trace s @ [Ev_print path mode text False]\<rparr>)"
  by (simp add: print_file_def)

lemma record_stats_open_raises:
  "open_file P (scores_txt out) Mode_a_plus s = Some (Inl e, s1) \<Longrightarrow>
     record_stats P out values s = Some (Inl e, s1)"
  by (simp add: record_stats_def bnd_Inl)

lemma record_stats_print_raises:
  "open_file P (scores_txt out) Mode_a_plus s = Some (Inr u, s1) \<Longrightarrow>
   write_error P (scores_txt out) (world s1) = Some e \<Longrightarrow>
     record_stats P out values s = Some (Inl e, s1\<lparr>trace := trace s1 @
       [Ev_print (scores_txt out) Mode_a_plus (join [tab] (map (py_str P) values)) False]\<rparr>)"
  by (simp add: record_stats_def bnd_Inr print_file_raises)

lemma evaluate_and_record_eval_raises:
  "eval_performance E A (n_runs self) (max_episode_len self) (explorer self) s
     = Some (Inl e, s1) \<Longrightarrow>
   evaluate_and_record P self t E A s = Some (Inl e, s1)"
  by (simp add: evaluate_and_record_def bnd_Inl)

lemma evaluate_and_record_stats_raises:
  "eval_performance E A (n_runs self) (max_episode_len self) (explorer self) s
     = Some (Inr (mean, median, stdev), s1) \<Longrightarrow>
   now P s1 = Some (Inr tm, s2) \<Longrightarrow>
   call_world Ev_get_statistics (agent_get_statistics A) s2 = Some (Inl e, s3) \<Longrightarrow>
   evaluate_and_record P self t E A s = Some (Inl e, s3)"
  by (simp add: evaluate_and_record_def bnd_Inl bnd_Inr)

lemma evaluate_and_record_record_raises:
  "eval_performance E A (n_runs self) (max_episode_len self) (explorer self) s
     = Some (Inr (mean, median, stdev), s1) \<Longrightarrow>
   now P s1 = Some (Inr tm, s2) \<Longrightarrow>
   call_world Ev_get_statistics (agent_get_statistics A) s2 = Some (Inr stats, s3) \<Longrightarrow>
   record_stats P (outdir self)
     ([PyInt t, PyFloat (tm - start_time self), PyFloat mean, PyFloat median, PyFloat stdev]
       @ map (PyFloat \<circ> snd) stats) s3 = Some (Inl e, s4) \<Longrightarrow>
   evaluate_and_record P self t E A s = Some (Inl e, s4)"
  by (simp add: evaluate_and_record_def bnd_Inl bnd_Inr)

lemma evaluate_and_update_raises:
  "evaluate_and_record P self t (env self) (agent self) s = Some (Inl e, s1) \<Longrightarrow>
     evaluate_and_update_max_score P t (self, s) = Some (Inl e, (self, s1))"
  by (simp add: evaluate_and_update_max_score_def bnd_on_sys_Inl)

lemma async_evaluate_and_update_raises:
  "evaluate_and_record P self t E A s = Some (Inl e, s1) \<Longrightarrow>
     async_evaluate_and_update_max_score P t E A (self, s) = Some (Inl e, (self, s1))"
  by (simp add: async_evaluate_and_update_max_score_def bnd_on_sys_Inl)

lemma evaluate_if_necessary_raises:
  "prev_eval_t self + eval_interval self \<le> t \<Longrightarrow>
   evaluate_and_update_max_score P t (self, s) = Some (Inl e, st) \<Longrightarrow>
     evaluate_if_necessary P t (self, s) = Some (Inl e, st)"
  by (simp add: evaluate_if_necessary_def bnd_Inl)

lemma ensure_header_raises:
  "\<not> wrote_header self \<Longrightarrow> write_header_to P (outdir self) A s = Some (Inl e, s1) \<Longrightarrow>
     ensure_header P A (self, s) = Some (Inl e, (self, s1))"
  by (simp add: ensure_header_def write_header_def bnd_def on_sys_def)

lemma async_header_raises:
  "sint (shared_prev_eval_t a) + eval_interval a \<le> t \<Longrightarrow>
   ensure_header P A (a\<lparr>shared_prev_eval_t :=
       to_c_long (sint (shared_prev_eval_t a) + eval_interval a)\<rparr>, s) = Some (Inl e, st) \<Longrightarrow>
     async_evaluate_if_necessary P t E A (a, s) = Some (Inl e, st)"
  by (simp add: async_evaluate_if_necessary_due bnd_Inl)

lemma async_evaluate_raises:
  "sint (shared_prev_eval_t a) + eval_interval a \<le> t \<Longrightarrow>
   ensure_header P A (a\<lparr>shared_prev_eval_t :=
       to_c_long (sint (shared_prev_eval_t a) + eval_interval a)\<rparr>, s) = Some (Inr u, st1) \<Longrightarrow>
   async_evaluate_and_update_max_score P t E A st1 = Some (Inl e, st2) \<Longrightarrow>
     async_evaluate_if_necessary P t E A (a, s) = Some (Inl e, st2)"
  by (simp add: async_evaluate_if_necessary_due bnd_Inl bnd_Inr)

lemma write_header_open_raises:
  "open_file P (scores_txt out) Mode_w s = Some (Inl e, s1) \<Longrightarrow>
     write_header_to P out A s = Some (Inl e, s1)"
  by (simp add: write_header_to_def bnd_Inl)

lemma write_header_stats_raises:
  "open_file P (scores_txt out) Mode_w s = Some (Inr u, s1) \<Longrightarrow>
   call_world Ev_get_statistics (agent_get_statistics A) s1 = Some (Inl e, s2) \<Longrightarrow>
     write_header_to P out A s = Some (Inl e, s2)"
  by (simp add: write_header_to_def bnd_Inl bnd_Inr)

lemma write_header_print_raises:
  "open_file P (scores_txt out) Mode_w s = Some (Inr u, s1) \<Longrightarrow>
   call_world Ev_get_statistics (agent_get_statistics A) s1 = Some (Inr stats, s2) \<Longrightarrow>
   write_error P (scores_txt out) (world s2) = Some e \<Longrightarrow>
     write_header_to P out A s = Some (Inl e, s2\<lparr>trace := trace s2 @
       [Ev_print (scores_txt out) Mode_w (join [tab] (column_names stats)) False]\<rparr>)"
  by (simp add: write_header_to_def bnd_Inr print_file_raises)

text \<open>
  \<^bold>\<open>C8.\<close> No part of the module handles an exception. When a call to the agent, the
  explorer, the environment or the file system raises, the program that made the call
  ends with that exception, in the state in which the call left it, and so does every
  program around it, up to \<^verbatim>\<open>evaluate_if_necessary\<close> of both classes: the episode loop
  (at any iteration, since an iteration that does not raise continues as the loop from
  the next state), the episode, the runs of \<^verbatim>\<open>eval_performance\<close>, the recording of the
  scores, the checkpoint, the header of \<^verbatim>\<open>AsyncEvaluator\<close> (opening the file, the
  statistics and the print in it). What was done before stays:
  \<^verbatim>\<open>Evaluator\<close> has not yet set \<^verbatim>\<open>prev_eval_t\<close>, \<^verbatim>\<open>AsyncEvaluator\<close> has already advanced
  it; \<^verbatim>\<open>max_score\<close> is unchanged when \<^verbatim>\<open>agent.save\<close> raises, and \<^verbatim>\<open>wrote_header\<close> stays
  unset when writing the header raises.
\<close>

theorem errors_propagate:
  "(\<not> dn \<and> Some t0 \<noteq> m \<and> select A X t0 obs s = Some (Inl e, s1) \<longrightarrow>
      episode_loop E A X m obs dn tr t0 s = Some (Inl e, s1))
   \<and> (\<not> dn \<and> Some t0 \<noteq> m \<and> select A X t0 obs s = Some (Inr a, s1)
        \<and> call_step E a s1 = Some (Inl e, s2) \<longrightarrow>
      episode_loop E A X m obs dn tr t0 s = Some (Inl e, s2))
   \<and> (\<not> dn \<and> Some t0 \<noteq> m \<and> select A X t0 obs s = Some (Inr a, s1)
        \<and> call_step E a s1 = Some (Inr (obs', x, d), s2) \<longrightarrow>
      episode_loop E A X m obs dn tr t0 s =
        episode_loop E A X m obs' d (tr + x) (t0 + 1) s2)
   \<and> (call_world Ev_reset (env_reset E) s = Some (Inl e, s1) \<longrightarrow>
      episode E A X m i s = Some (Inl e, s1))
   \<and> (call_world Ev_reset (env_reset E) s = Some (Inr obs, s1)
        \<and> episode_loop E A X m obs False 0 0 s1 = Some (Inl e, s2) \<longrightarrow>
      episode E A X m i s = Some (Inl e, s2))
   \<and> (call_world Ev_reset (env_reset E) s = Some (Inr obs, s1)
        \<and> episode_loop E A X m obs False 0 0 s1 = Some (Inr (tr, t0), s2)
        \<and> call_world Ev_stop_episode (agent_stop_episode A) s2 = Some (Inl e, s3) \<longrightarrow>
      episode E A X m i s = Some (Inl e, s3))
   \<and> (episode E A X m i s = Some (Inl e, s1) \<longrightarrow>
      run_episodes E A X m (i # js) acc s = Some (Inl e, s1))
   \<and> (episode E A X m i s = Some (Inr x, s1) \<longrightarrow>
      run_episodes E A X m (i # js) acc s = run_episodes E A X m js (acc @ [x]) s1)
   \<and> (run_episodes E A X m (py_range n) [] s = Some (Inl e, s1) \<longrightarrow>
      eval_performance E A n m X s = Some (Inl e, s1))
   \<and> (eval_performance E A (n_runs self) (max_episode_len self) (explorer self) s
          = Some (Inl e, s1) \<longrightarrow>
      evaluate_and_record P self t E A s = Some (Inl e, s1))
   \<and> (eval_performance E A (n_runs self) (max_episode_len self) (explorer self) s
          = Some (Inr (mean, median, stdev), s1)
        \<and> now P s1 = Some (Inr tm, s2)
        \<and> call_world Ev_get_statistics (agent_get_statistics A) s2 = Some (Inl e, s3) \<longrightarrow>
      evaluate_and_record P self t E A s = Some (Inl e, s3))
   \<and> (eval_performance E A (n_runs self) (max_episode_len self) (explorer self) s
          = Some (Inr (mean, median, stdev), s1)
        \<and> now P s1 = Some (Inr tm, s2)
        \<and> call_world Ev_get_statistics (agent_get_statistics A) s2 = Some (Inr stats, s3)
        \<and> record_stats P (outdir self)
             ([PyInt t, PyFloat (tm - start_time self), PyFloat mean, PyFloat median,
               PyFloat stdev] @ map (PyFloat \<circ> snd) stats) s3 = Some (Inl e, s4) \<longrightarrow>
      evaluate_and_record P self t E A s = Some (Inl e, s4))
   \<and> (open_error P path mode (world s) = Some e \<longrightarrow>
      open_file P path mode s = Some (Inl e, s\<lparr>trace := trace s @ [Ev_open path mode]\<rparr>))
   \<and> (write_error P path (world s) = Some e \<longrightarrow>
      print_file P path mode text s =
        Some (Inl e, s\<lparr>trace := trace s @ [Ev_print path mode text False]\<rparr>))
   \<and> (open_file P (scores_txt out) Mode_a_plus s = Some (Inl e, s1) \<longrightarrow>
      record_stats P out values s = Some (Inl e, s1))
   \<and> (open_file P (scores_txt out) Mode_a_plus s = Some (Inr u, s1)
        \<and> write_error P (scores_txt out) (world s1) = Some e \<longrightarrow>
      record_stats P out values s = Some (Inl e, s1\<lparr>trace := trace s1 @
        [Ev_print (scores_txt out) Mode_a_plus (join [tab] (map (py_str P) values)) False]\<rparr>))
   \<and> (evaluate_and_record P ev t (env ev) (agent ev) s = Some (Inl e, s1) \<longrightarrow>
      evaluate_and_update_max_score P t (ev, s) = Some (Inl e, (ev, s1)))
   \<and> (evaluate_and_record P ev t (env ev) (agent ev) s = Some (Inr mean, s1)
        \<and> mean > max_score ev
        \<and> agent_save (agent ev) (os_path_join (outdir ev) (str_int t)) (world s1)
            = (Inl e, w') \<longrightarrow>
      evaluate_and_update_max_score P t (ev, s) =
        Some (Inl e, (ev, s1\<lparr>world := w', trace := trace s1 @
            [Ev_info_best mean, Ev_save (os_path_join (outdir ev) (str_int t))]\<rparr>)))
   \<and> (prev_eval_t ev + eval_interval ev \<le> t
        \<and> evaluate_and_update_max_score P t (ev, s) = Some (Inl e, st) \<longrightarrow>
      evaluate_if_necessary P t (ev, s) = Some (Inl e, st))
   \<and> (evaluate_and_record P av t E A s = Some (Inl e, s1) \<longrightarrow>
      async_evaluate_and_update_max_score P t E A (av, s) = Some (Inl e, (av, s1)))
   \<and> (evaluate_and_record P av t E A s = Some (Inr mean, s1)
        \<and> gt_c_float mean (shared_max_score av)
        \<and> agent_save A (os_path_join (outdir av) (str_int t)) (world s1) = (Inl e, w') \<longrightarrow>
      async_evaluate_and_update_max_score P t E A (av, s) =
        Some (Inl e, (av, s1\<lparr>world := w', trace := trace s1 @
            [Ev_info_best mean, Ev_save (os_path_join (outdir av) (str_int t))]\<rparr>)))
   \<and> (\<not> wrote_header av \<and> write_header_to P (outdir av) A s = Some (Inl e, s1) \<longrightarrow>
      ensure_header P A (av, s) = Some (Inl e, (av, s1)))
   \<and> (sint (shared_prev_eval_t av) + eval_interval av \<le> t
        \<and> ensure_header P A (av\<lparr>shared_prev_eval_t :=
             to_c_long (sint (shared_prev_eval_t av) + eval_interval av)\<rparr>, s)
            = Some (Inl e, sta) \<longrightarrow>
      async_evaluate_if_necessary P t E A (av, s) = Some (Inl e, sta))
   \<and> (sint (shared_prev_eval_t av) + eval_interval av \<le> t
        \<and> ensure_header P A (av\<lparr>shared_prev_eval_t :=
             to_c_long (sint (shared_prev_eval_t av) + eval_interval av)\<rparr>, s)
            = Some (Inr u, sta1)
        \<and> async_evaluate_and_update_max_score P t E A sta1 = Some (Inl e, sta2) \<longrightarrow>
      async_evaluate_if_necessary P t E A (av, s) = Some (Inl e, sta2))
   \<and> (open_file P (scores_txt out) Mode_w s = Some (Inl e, s1) \<longrightarrow>
      write_header_to P out A s = Some (Inl e, s1))
   \<and> (open_file P (scores_txt out) Mode_w s = Some (Inr u, s1)
        \<and> call_world Ev_get_statistics (agent_get_statistics A) s1 = Some (Inl e, s2) \<longrightarrow>
      write_header_to P out A s = Some (Inl e, s2))
   \<and> (open_file P (scores_txt out) Mode_w s = Some (Inr u, s1)
        \<and> call_world Ev_get_statistics (agent_get_statistics A) s1 = Some (Inr stats, s2)
        \<and> write_error P (scores_txt out) (world s2) = Some e \<longrightarrow>
      write_header_to P out A s = Some (Inl e, s2\<lparr>trace := trace s2 @
        [Ev_print (scores_txt out) Mode_w (join [tab] (column_names stats)) False]\<rparr>))"
  apply (intro conjI impI; (elim conjE)?)
  subgoal by (rule loop_select_raises)
  subgoal by (rule loop_step_raises)
  subgoal by (rule loop_step_returns)
  subgoal by (rule episode_reset_raises)
  subgoal by (rule episode_loop_raises)
  subgoal by (rule episode_stop_raises)
  subgoal by (rule run_episodes_raises)
  subgoal by (rule run_episodes_next)
  subgoal by (rule eval_performance_raises)
  subgoal by (rule evaluate_and_record_eval_raises)
  subgoal by (rule evaluate_and_record_stats_raises)
  subgoal by (rule evaluate_and_record_record_raises)
  subgoal by (rule open_file_raises)
  subgoal by (rule print_file_raises)
  subgoal by (rule record_stats_open_raises)
  subgoal by (rule record_stats_print_raises)
  subgoal by (rule evaluate_and_update_raises)
  subgoal by (simp add: evaluate_and_update_max_score_apply)
  subgoal by (rule evaluate_if_necessary_raises)
  subgoal by (rule async_evaluate_and_update_raises)
  subgoal by (simp add: async_evaluate_and_update_max_score_apply)
  subgoal by (rule ensure_header_raises)
  subgoal by (rule async_header_raises)
  subgoal by (rule async_evaluate_raises)
  subgoal by (rule write_header_open_raises)
  subgoal by (rule write_header_stats_raises)
  subgoal by (rule write_header_print_raises)
  done

theorem errors_propagate_witness:
  "prev_eval_t (demo_evaluator\<lparr>env := demo_env_raising\<rparr>)
      + eval_interval (demo_evaluator\<lparr>env := demo_env_raising\<rparr>) \<le> 100
   \<and> map_option (\<lambda>(r, e, s). (r, prev_eval_t e, files s ''out/scores.txt'', trace s))
      (evaluate_if_necessary demo_py 100
         (demo_evaluator\<lparr>env := demo_env_raising\<rparr>, demo_sys [(1, 1)]))
     = Some (Inl (Raised ''env''), 0, None, [Ev_reset, Ev_act, Ev_step None])
   \<and> map_option (\<lambda>(r, a, s). (r, sint (shared_prev_eval_t a), wrote_header a,
          saves_of (trace s)))
      (async_evaluate_if_necessary demo_py 100 demo_env_raising demo_agent
         (demo_async, demo_async_sys [(1, 1)]))
     = Some (Inl (Raised ''env''), 100, True, [])"
proof -
  let ?ev = "demo_evaluator\<lparr>env := demo_env_raising\<rparr>"
  have due: "prev_eval_t ?ev + eval_interval ?ev \<le> 100" by (simp add: demo_defs)
  have "\<exists>e s'. evaluate_and_update_max_score demo_py 100 (?ev, demo_sys [(1, 1)])
      = Some (Inl (Raised ''env''), (e, s')) \<and> prev_eval_t e = 0
      \<and> files s' ''out/scores.txt'' = None \<and> trace s' = [Ev_reset, Ev_act, Ev_step None]"
    by (simp add: eval_defs)
  then obtain e s' where c: "evaluate_and_update_max_score demo_py 100 (?ev, demo_sys [(1, 1)])
      = Some (Inl (Raised ''env''), (e, s'))" "prev_eval_t e = 0"
      "files s' ''out/scores.txt'' = None" "trace s' = [Ev_reset, Ev_act, Ev_step None]"
    by blast
  from c(1) due errors_propagate [where ev = ?ev and P = demo_py and t = 100
      and s = "demo_sys [(1, 1)]" and e = "Raised ''env''" and st = "(e, s')",
      THEN conjunct2, THEN conjunct2, THEN conjunct2, THEN conjunct2,
      THEN conjunct2, THEN conjunct2, THEN conjunct2, THEN conjunct2,
      THEN conjunct2, THEN conjunct2, THEN conjunct2, THEN conjunct2,
      THEN conjunct2, THEN conjunct2, THEN conjunct2, THEN conjunct2,
      THEN conjunct2, THEN conjunct2, THEN conjunct1]
  have "evaluate_if_necessary demo_py 100 (?ev, demo_sys [(1, 1)])
      = Some (Inl (Raised ''env''), (e, s'))"
    by blast
  with c have "map_option (\<lambda>(r, e, s). (r, prev_eval_t e, files s ''out/scores.txt'', trace s))
      (evaluate_if_necessary demo_py 100 (?ev, demo_sys [(1, 1)]))
     = Some (Inl (Raised ''env''), 0, None, [Ev_reset, Ev_act, Ev_step None])"
    by simp
  with due show ?thesis
    by (simp add: eval_defs)
qed

end
